theory Spec2Isabelle
  imports Complex_Main
begin

section \<open>Strings\<close>

text \<open>
  Python strings are modelled as \<open>string\<close> (lists of 8-bit characters), so \<open>lower\<close> is
  the ASCII case folding of \<open>str.lower\<close>, and \<open>str_in a b\<close> is the substring test
  \<open>a in b\<close>.
\<close>

definition lower_char :: "char \<Rightarrow> char" where
  "lower_char c =
     (let n = (of_char c :: nat) in if 65 \<le> n \<and> n \<le> 90 then char_of (n + 32) else c)"

definition lower :: "string \<Rightarrow> string" where
  "lower s = map lower_char s"

fun startswith :: "string \<Rightarrow> string \<Rightarrow> bool" where
  "startswith s [] = True"
| "startswith [] (p # ps) = False"
| "startswith (c # cs) (p # ps) = (c = p \<and> startswith cs ps)"

fun str_in :: "string \<Rightarrow> string \<Rightarrow> bool" where
  "str_in a [] = (a = [])"
| "str_in a (c # cs) = (startswith (c # cs) a \<or> str_in a cs)"

fun str_le :: "string \<Rightarrow> string \<Rightarrow> bool" where
  "str_le [] t = True"
| "str_le (c # cs) [] = False"
| "str_le (c # cs) (d # ds) =
     ((of_char c :: nat) < of_char d \<or> (c = d \<and> str_le cs ds))"

section \<open>Tabular data\<close>

text \<open>
  A pandas DataFrame is a list of named columns with their declared type and a list of
  rows. A cell is a number, a text, a timestamp (nanoseconds) or the missing value
  (NaN, None, NaT). Floating-point numbers are taken as exact rationals: rounding is not
  part of the model. Frames built by pandas are rectangular; a cell read beyond the end
  of a row, which no such frame has, reads as missing.
\<close>

datatype dtype = Numeric | Text | Datetime

datatype cell = Num rat | Str string | Date int | NaN

record DataFrame =
  columns :: "(string \<times> dtype) list"
  rows :: "cell list list"

datatype py_error =
  TypeError string
  | ValueError string
  | AttributeError string
  | SQLError string

definition empty_frame :: DataFrame where
  "empty_frame = \<lparr>columns = [], rows = []\<rparr>"

definition col_names :: "DataFrame \<Rightarrow> string list" where
  "col_names d = map fst (columns d)"

fun index_of :: "'a \<Rightarrow> 'a list \<Rightarrow> nat" where
  "index_of x [] = 0"
| "index_of x (y # ys) = (if x = y then 0 else Suc (index_of x ys))"

definition col_index :: "DataFrame \<Rightarrow> string \<Rightarrow> nat" where
  "col_index d c = index_of c (col_names d)"

definition cell_at :: "nat \<Rightarrow> cell list \<Rightarrow> cell" where
  "cell_at i r = (if i < length r then r ! i else NaN)"

definition col_values :: "DataFrame \<Rightarrow> string \<Rightarrow> cell list" where
  "col_values d c = map (cell_at (col_index d c)) (rows d)"

definition col_dtype :: "DataFrame \<Rightarrow> string \<Rightarrow> dtype" where
  "col_dtype d c = (case map_of (columns d) c of Some t \<Rightarrow> t | None \<Rightarrow> Text)"

text \<open>\<open>len(df)\<close> is the number of rows.\<close>

definition len :: "DataFrame \<Rightarrow> nat" where
  "len d = length (rows d)"

text \<open>
  \<open>df.head(n)\<close> is \<open>df.iloc[:n]\<close>: the first \<open>n\<close> rows, all rows but the last \<open>-n\<close>
  when \<open>n\<close> is negative, and every row when \<open>n\<close> is \<open>None\<close>.
\<close>

definition head :: "int option \<Rightarrow> DataFrame \<Rightarrow> DataFrame" where
  "head n d =
     (case n of
        None \<Rightarrow> d
      | Some k \<Rightarrow>
          if 0 \<le> k then d\<lparr>rows := take (nat k) (rows d)\<rparr>
          else d\<lparr>rows := take (length (rows d) - nat (- k)) (rows d)\<rparr>)"

subsection \<open>Ordering of cells\<close>

text \<open>
  \<open>cell_le\<close> is the ascending order of \<open>sort_values\<close> and of the group keys, missing
  values last. A column holds cells of one type, so the order between cells of different
  types (numbers, then texts, then timestamps) is never consulted on a frame pandas built.
  \<open>cell_ge\<close> is the descending order, missing values last as well.
\<close>

fun cell_le :: "cell \<Rightarrow> cell \<Rightarrow> bool" where
  "cell_le x NaN = True"
| "cell_le NaN y = False"
| "cell_le (Num a) (Num b) = (a \<le> b)"
| "cell_le (Num a) y = True"
| "cell_le (Str a) (Num b) = False"
| "cell_le (Str a) (Str b) = str_le a b"
| "cell_le (Str a) (Date b) = True"
| "cell_le (Date a) (Date b) = (a \<le> b)"
| "cell_le (Date a) y = False"

definition cell_ge :: "cell \<Rightarrow> cell \<Rightarrow> bool" where
  "cell_ge x y = (if y = NaN then True else if x = NaN then False else cell_le y x)"

fun insort_by :: "('a \<Rightarrow> 'a \<Rightarrow> bool) \<Rightarrow> 'a \<Rightarrow> 'a list \<Rightarrow> 'a list" where
  "insort_by le x [] = [x]"
| "insort_by le x (y # ys) = (if le x y then x # y # ys else y # insort_by le x ys)"

definition sorted_by :: "('a \<Rightarrow> 'a \<Rightarrow> bool) \<Rightarrow> 'a list \<Rightarrow> 'a list" where
  "sorted_by le xs = foldr (insort_by le) xs []"

text \<open>
  \<open>df.sort_values(col, ascending=asc)\<close>: the rows ordered by the cell of \<open>col\<close>. Rows
  with equal keys keep their order here; pandas does not promise an order between them.
\<close>

definition sort_values :: "string \<Rightarrow> bool \<Rightarrow> DataFrame \<Rightarrow> DataFrame" where
  "sort_values c asc d =
     (let i = col_index d c;
          le = (\<lambda>r s. (if asc then cell_le else cell_ge) (cell_at i r) (cell_at i s))
      in d\<lparr>rows := sorted_by le (rows d)\<rparr>)"

subsection \<open>Aggregates of a column\<close>

text \<open>
  The reductions skip missing values. Over a numeric column: \<open>sum\<close> of nothing is 0,
  \<open>mean\<close>, \<open>max\<close> and \<open>min\<close> of nothing are missing, \<open>count\<close> is the number of
  values present. \<open>sum\<close> and \<open>mean\<close> are modelled on numbers only: on a cell that is
  neither a number nor missing the model raises \<open>TypeError\<close>, as pandas does for
  timestamps under \<open>sum\<close> and for texts under \<open>mean\<close> (pandas concatenates texts under
  \<open>sum\<close>, which this model does not follow).
\<close>

datatype agg = Sum | Mean | Max | Min | Count

definition present :: "cell list \<Rightarrow> cell list" where
  "present vs = filter (\<lambda>v. v \<noteq> NaN) vs"

fun num_of :: "cell \<Rightarrow> rat option" where
  "num_of (Num a) = Some a"
| "num_of v = None"

fun nums_of :: "cell list \<Rightarrow> rat list option" where
  "nums_of [] = Some []"
| "nums_of (v # vs) =
     (case num_of v of
        None \<Rightarrow> None
      | Some a \<Rightarrow> (case nums_of vs of None \<Rightarrow> None | Some as \<Rightarrow> Some (a # as)))"

fun best :: "(cell \<Rightarrow> cell \<Rightarrow> bool) \<Rightarrow> cell list \<Rightarrow> cell" where
  "best le [] = NaN"
| "best le [v] = v"
| "best le (v # w # ws) = (let b = best le (w # ws) in if le v b then v else b)"

definition aggregate :: "agg \<Rightarrow> cell list \<Rightarrow> py_error + cell" where
  "aggregate f vs =
     (let ps = present vs in
      case f of
        Sum \<Rightarrow> (case nums_of ps of
                  None \<Rightarrow> Inl (TypeError ''unsupported operand for sum'')
                | Some as \<Rightarrow> Inr (Num (sum_list as)))
      | Mean \<Rightarrow> (case nums_of ps of
                   None \<Rightarrow> Inl (TypeError ''unsupported operand for mean'')
                 | Some as \<Rightarrow>
                     Inr (if as = [] then NaN else Num (sum_list as / of_nat (length as))))
      | Max \<Rightarrow> Inr (best cell_ge ps)
      | Min \<Rightarrow> Inr (best cell_le ps)
      | Count \<Rightarrow> Inr (Num (of_nat (length ps))))"

definition agg_dtype :: "agg \<Rightarrow> dtype \<Rightarrow> dtype" where
  "agg_dtype f t = (case f of Max \<Rightarrow> t | Min \<Rightarrow> t | _ \<Rightarrow> Numeric)"

subsection \<open>Grouping\<close>

text \<open>
  \<open>df.groupby(by)[metric]\<close> followed by a reduction and \<open>reset_index()\<close>: one row per
  distinct value of \<open>by\<close> that is not missing, in ascending order of that value, holding
  the value and the reduction of \<open>metric\<close> over the rows of the group.
  \<open>reset_index\<close> raises \<open>ValueError\<close> when the two columns have the same name.
\<close>

definition group_keys :: "DataFrame \<Rightarrow> string \<Rightarrow> cell list" where
  "group_keys d by = sorted_by cell_le (remdups (present (col_values d by)))"

definition group_values :: "DataFrame \<Rightarrow> string \<Rightarrow> string \<Rightarrow> cell \<Rightarrow> cell list" where
  "group_values d by metric k =
     map (cell_at (col_index d metric))
       (filter (\<lambda>r. cell_at (col_index d by) r = k) (rows d))"

fun group_rows :: "(cell \<Rightarrow> py_error + cell) \<Rightarrow> cell list \<Rightarrow> py_error + cell list list" where
  "group_rows g [] = Inr []"
| "group_rows g (k # ks) =
     (case g k of
        Inl e \<Rightarrow> Inl e
      | Inr v \<Rightarrow> (case group_rows g ks of Inl e \<Rightarrow> Inl e | Inr rs \<Rightarrow> Inr ([k, v] # rs)))"

definition groupby_agg :: "DataFrame \<Rightarrow> string \<Rightarrow> string \<Rightarrow> agg \<Rightarrow> py_error + DataFrame" where
  "groupby_agg d by metric f =
     (case group_rows (\<lambda>k. aggregate f (group_values d by metric k)) (group_keys d by) of
        Inl e \<Rightarrow> Inl e
      | Inr rs \<Rightarrow>
          if by = metric then Inl (ValueError (''cannot insert '' @ by @ '', already exists''))
          else Inr \<lparr>columns = [(by, col_dtype d by), (metric, agg_dtype f (col_dtype d metric))],
                    rows = rs\<rparr>)"

section \<open>The data extraction agent\<close>

text \<open>
  An intent is a dictionary. A key may be absent, which is where the defaults of
  \<open>intent.get\<close> apply; the optional fields \<open>aggregation\<close>, \<open>sort_by\<close> and \<open>limit\<close> may
  also be present with the value \<open>None\<close>.
\<close>

datatype 'a entry = Absent | Present 'a

fun get_or :: "'a entry \<Rightarrow> 'a \<Rightarrow> 'a" where
  "get_or Absent dflt = dflt"
| "get_or (Present v) dflt = v"

record Intent =
  query_type :: "string entry"
  entities :: "string list entry"
  metrics :: "string list entry"
  filters :: "(string \<times> cell) list entry"
  aggregation :: "string option entry"
  sort_by :: "string option entry"
  limit :: "int option entry"

text \<open>
  The agent holds the connection to the tabular engine, the dataset, and the last query
  and result. The engine is a collaborator: it answers an SQL text with a relation or
  with the message of the error it raises.
\<close>

record DataExtractionAgent =
  db_conn :: "string \<Rightarrow> string + DataFrame"
  df :: DataFrame
  last_query :: "string option"
  last_result :: "DataFrame option"

definition execute_sql ::
  "DataExtractionAgent \<Rightarrow> string \<Rightarrow> (string + DataFrame) \<times> DataExtractionAgent" where
  "execute_sql self sql_query =
     (case db_conn self sql_query of
        Inr result \<Rightarrow>
          (Inr result, self\<lparr>last_query := Some sql_query, last_result := Some result\<rparr>)
      | Inl e \<Rightarrow> (Inl e, self))"

text \<open>The fallback of every strategy: \<open>self.df.head(10)\<close>.\<close>

definition head10 :: "DataFrame \<Rightarrow> DataFrame" where
  "head10 d = head (Some 10) d"

text \<open>
  The loop over the columns that stops at the first one whose lower-cased name contains
  the lower-cased text of any entity.
\<close>

definition entity_matches :: "string list \<Rightarrow> string \<Rightarrow> bool" where
  "entity_matches ents col = list_ex (\<lambda>entity. str_in (lower entity) (lower col)) ents"

definition find_entity_col :: "DataFrame \<Rightarrow> string list \<Rightarrow> string option" where
  "find_entity_col d ents = find (entity_matches ents) (col_names d)"

text \<open>
  The loop over the columns that stops at the first one that has the type
  \<open>datetime64[ns]\<close> or whose lower-cased name contains \<open>date\<close>.
\<close>

definition is_date_col :: "string \<times> dtype \<Rightarrow> bool" where
  "is_date_col c = (snd c = Datetime \<or> str_in ''date'' (lower (fst c)))"

definition find_date_col :: "DataFrame \<Rightarrow> string option" where
  "find_date_col d = map_option fst (find is_date_col (columns d))"

text \<open>
  \<open>metrics[0] if metrics[0] in self.df.columns else None\<close>, then tested for truth:
  an empty name counts as unresolved.
\<close>

definition metric_col :: "DataFrame \<Rightarrow> string list \<Rightarrow> string option" where
  "metric_col d ms =
     (case ms of
        [] \<Rightarrow> None
      | m # _ \<Rightarrow> if m \<in> set (col_names d) \<and> m \<noteq> [] then Some m else None)"

definition map_frame ::
  "(DataFrame \<Rightarrow> DataFrame) \<Rightarrow> py_error + DataFrame \<Rightarrow> py_error + DataFrame" where
  "map_frame f r = (case r of Inl e \<Rightarrow> Inl e | Inr d \<Rightarrow> Inr (f d))"

definition extract_comparison :: "DataFrame \<Rightarrow> Intent \<Rightarrow> py_error + DataFrame" where
  "extract_comparison d intent =
     (let ents = get_or (entities intent) []; ms = get_or (metrics intent) [] in
      if ents = [] \<or> ms = [] then Inr (head10 d)
      else (case find_entity_col d ents of
              None \<Rightarrow> Inr (head10 d)
            | Some entity_col \<Rightarrow>
                if entity_col = [] then Inr (head10 d)
                else (case metric_col d ms of
                        Some m \<Rightarrow>
                          map_frame (sort_values m False) (groupby_agg d entity_col m Sum)
                      | None \<Rightarrow> Inr (head10 d))))"

definition extract_trend :: "DataFrame \<Rightarrow> Intent \<Rightarrow> py_error + DataFrame" where
  "extract_trend d intent =
     (let ms = get_or (metrics intent) [] in
      case find_date_col d of
        None \<Rightarrow> Inr (head10 d)
      | Some date_col \<Rightarrow>
          if date_col = [] \<or> ms = [] then Inr (head10 d)
          else (case metric_col d ms of
                  Some m \<Rightarrow>
                    map_frame (sort_values date_col True) (groupby_agg d date_col m Sum)
                | None \<Rightarrow> Inr (head10 d)))"

text \<open>
  \<open>result[result[col] == value]\<close>: the rows whose cell equals the value. A missing cell
  equals nothing, not even a missing value.
\<close>

definition cell_eq :: "cell \<Rightarrow> cell \<Rightarrow> bool" where
  "cell_eq c v = (c = v \<and> c \<noteq> NaN)"

definition apply_filter :: "string \<times> cell \<Rightarrow> DataFrame \<Rightarrow> DataFrame" where
  "apply_filter f result =
     (if fst f \<in> set (col_names result)
      then result\<lparr>rows := filter (\<lambda>r. cell_eq (cell_at (col_index result (fst f)) r) (snd f))
                               (rows result)\<rparr>
      else result)"

fun apply_filters :: "(string \<times> cell) list \<Rightarrow> DataFrame \<Rightarrow> DataFrame" where
  "apply_filters [] result = result"
| "apply_filters (f # fs) result = apply_filters fs (apply_filter f result)"

definition extract_filtered :: "DataFrame \<Rightarrow> Intent \<Rightarrow> py_error + DataFrame" where
  "extract_filtered d intent =
     (let result = apply_filters (get_or (filters intent) []) d;
          lim = get_or (limit intent) (Some 100)
      in Inr (head lim result))"

text \<open>
  \<open>getattr(grouped, aggregation, 'sum')\<close>: the reductions \<open>sum\<close>, \<open>mean\<close>, \<open>max\<close>,
  \<open>min\<close> and \<open>count\<close> are methods of a grouped column; \<open>avg\<close> is not, nor is any name
  pandas does not know, and for those \<open>getattr\<close> yields its default, the text \<open>'sum'\<close>,
  whose call raises \<open>TypeError\<close>. The other methods of a grouped column (\<open>median\<close>,
  \<open>std\<close> and so on) are not modelled. A name that is \<open>None\<close> makes \<open>getattr\<close> itself
  raise \<open>TypeError\<close>.
\<close>

definition groupby_method :: "string \<Rightarrow> agg option" where
  "groupby_method name =
     (if name = ''sum'' then Some Sum
      else if name = ''mean'' then Some Mean
      else if name = ''max'' then Some Max
      else if name = ''min'' then Some Min
      else if name = ''count'' then Some Count
      else None)"

definition sort_desc_by :: "string option entry \<Rightarrow> DataFrame \<Rightarrow> DataFrame" where
  "sort_desc_by sb result =
     (case get_or sb None of
        None \<Rightarrow> result
      | Some c \<Rightarrow>
          if c \<noteq> [] \<and> c \<in> set (col_names result) then sort_values c False result
          else result)"

definition extract_aggregation :: "DataFrame \<Rightarrow> Intent \<Rightarrow> py_error + DataFrame" where
  "extract_aggregation d intent =
     (let ents = get_or (entities intent) []; ms = get_or (metrics intent) [];
          aggr = get_or (aggregation intent) (Some ''sum'')
      in
      if ents = [] \<or> ms = [] then Inr (head10 d)
      else (case find_entity_col d ents of
              None \<Rightarrow> Inr (head10 d)
            | Some entity_col \<Rightarrow>
                if entity_col = [] then Inr (head10 d)
                else (case metric_col d ms of
                        None \<Rightarrow> Inr (head10 d)
                      | Some m \<Rightarrow>
                          (case aggr of
                             None \<Rightarrow>
                               Inl (TypeError ''attribute name must be string, not NoneType'')
                           | Some name \<Rightarrow>
                               (case groupby_method name of
                                  None \<Rightarrow> Inl (TypeError ''str object is not callable'')
                                | Some f \<Rightarrow>
                                    map_frame
                                      (\<lambda>result. head (get_or (limit intent) (Some 100))
                                                  (sort_desc_by (sort_by intent) result))
                                      (groupby_agg d entity_col m f))))))"

text \<open>
  The summary strategy. Without metrics it is \<open>describe()\<close> of the numeric columns, a
  function of pandas (count, mean, standard deviation, quartiles, minimum and maximum)
  taken as a parameter. With metrics it is one row with the total, average, maximum and
  minimum of every metric that is a column, in the order the metrics first occur.
\<close>

definition select_numeric :: "DataFrame \<Rightarrow> DataFrame" where
  "select_numeric d =
     (let keep = filter (\<lambda>i. snd (columns d ! i) = Numeric) [0 ..< length (columns d)]
      in \<lparr>columns = map (\<lambda>i. columns d ! i) keep,
          rows = map (\<lambda>r. map (\<lambda>i. cell_at i r) keep) (rows d)\<rparr>)"

definition keep_first :: "'a list \<Rightarrow> 'a list" where
  "keep_first xs = rev (remdups (rev xs))"

definition stats_of :: "DataFrame \<Rightarrow> string \<Rightarrow> py_error + ((string \<times> dtype) \<times> cell) list" where
  "stats_of d m =
     (let vs = col_values d m; t = col_dtype d m in
      case aggregate Sum vs of
        Inl e \<Rightarrow> Inl e
      | Inr tot \<Rightarrow>
          (case aggregate Mean vs of
             Inl e \<Rightarrow> Inl e
           | Inr avg \<Rightarrow>
               (case aggregate Max vs of
                  Inl e \<Rightarrow> Inl e
                | Inr mx \<Rightarrow>
                    (case aggregate Min vs of
                       Inl e \<Rightarrow> Inl e
                     | Inr mn \<Rightarrow>
                         Inr [((m @ ''_total'', Numeric), tot), ((m @ ''_avg'', Numeric), avg),
                              ((m @ ''_max'', t), mx), ((m @ ''_min'', t), mn)]))))"

fun metric_stats :: "DataFrame \<Rightarrow> string list \<Rightarrow> py_error + ((string \<times> dtype) \<times> cell) list" where
  "metric_stats d [] = Inr []"
| "metric_stats d (m # ms) =
     (case stats_of d m of
        Inl e \<Rightarrow> Inl e
      | Inr st \<Rightarrow> (case metric_stats d ms of Inl e \<Rightarrow> Inl e | Inr rest \<Rightarrow> Inr (st @ rest)))"

definition extract_summary ::
  "(DataFrame \<Rightarrow> py_error + DataFrame) \<Rightarrow> DataFrame \<Rightarrow> Intent \<Rightarrow> py_error + DataFrame" where
  "extract_summary describe d intent =
     (let ms = get_or (metrics intent) [] in
      if ms = [] then describe (select_numeric d)
      else case metric_stats d (keep_first (filter (\<lambda>m. m \<in> set (col_names d)) ms)) of
        Inl e \<Rightarrow> Inl e
      | Inr stats \<Rightarrow>
          Inr (if stats = [] then empty_frame
               else \<lparr>columns = map fst stats, rows = [map snd stats]\<rparr>))"

definition extract_by_intent ::
  "(DataFrame \<Rightarrow> py_error + DataFrame) \<Rightarrow> DataExtractionAgent \<Rightarrow> Intent
     \<Rightarrow> (py_error + DataFrame) \<times> DataExtractionAgent" where
  "extract_by_intent describe self intent =
     (let qt = get_or (query_type intent) ''summary'' in
      if qt = ''summary'' then (extract_summary describe (df self) intent, self)
      else if qt = ''comparison'' then (extract_comparison (df self) intent, self)
      else if qt = ''trend'' then (extract_trend (df self) intent, self)
      else if qt = ''filter'' then (extract_filtered (df self) intent, self)
      else if qt = ''aggregation'' then (extract_aggregation (df self) intent, self)
      else (Inr (head10 (df self)), self))"

section \<open>The validation agent\<close>

text \<open>
  The issues are kept by what they report instead of by their rendered text:
  \<open>EmptyResult\<close> is "Result is empty - no data returned", \<open>NullValues\<close> carries the
  columns that have missing values with their counts, \<open>DuplicateRows\<close> the number of
  duplicate rows, and \<open>ErrorText\<close> the message of an exception.
\<close>

datatype issue =
  EmptyResult
  | NullValues "(string \<times> nat) list"
  | DuplicateRows nat
  | ErrorText string

record ValidationResult =
  is_valid :: bool
  confidence :: rat
  issues :: "issue list"
  suggestions :: "string list entry"
  quality_score :: rat
  row_count :: "nat entry"
  column_count :: "nat entry"

text \<open>\<open>result.isnull().sum()\<close>: the number of missing cells of every column.\<close>

definition null_counts :: "DataFrame \<Rightarrow> (string \<times> nat) list" where
  "null_counts d =
     map (\<lambda>i. (fst (columns d ! i), length (filter (\<lambda>r. cell_at i r = NaN) (rows d))))
       [0 ..< length (columns d)]"

text \<open>
  \<open>result.drop_duplicates()\<close> keeps the first of equal rows; a frame without rows or
  without columns is returned as it is.
\<close>

definition drop_duplicates :: "DataFrame \<Rightarrow> DataFrame" where
  "drop_duplicates d =
     (if rows d = [] \<or> columns d = [] then d else d\<lparr>rows := keep_first (rows d)\<rparr>)"

text \<open>The three checks that run before the language model is asked.\<close>

definition check_empty :: "DataFrame \<Rightarrow> issue list \<times> string list" where
  "check_empty result =
     (if len result = 0
      then ([EmptyResult],
            [''Review query filters or check if data exists for the criteria''])
      else ([], []))"

definition check_nulls :: "DataFrame \<Rightarrow> issue list \<times> string list" where
  "check_nulls result =
     (let nc = null_counts result in
      if sum_list (map snd nc) > 0
      then ([NullValues (filter (\<lambda>p. snd p > 0) nc)],
            [''Consider handling null values or filtering them out''])
      else ([], []))"

definition check_duplicates :: "DataFrame \<Rightarrow> issue list \<times> string list" where
  "check_duplicates result =
     (if len result \<noteq> len (drop_duplicates result)
      then ([DuplicateRows (len result - len (drop_duplicates result))],
            [''Consider removing duplicates or adding DISTINCT to query''])
      else ([], []))"

definition basic_checks :: "DataFrame \<Rightarrow> issue list \<times> string list" where
  "basic_checks result =
     (let e = check_empty result; n = check_nulls result; u = check_duplicates result
      in (fst e @ fst n @ fst u, snd e @ snd n @ snd u))"

text \<open>
  The language model is a collaborator: asked with the question, the query and the
  result (from which the prompt is rendered), it answers with a text or fails with the
  message of the error.
\<close>

definition validate_result ::
  "(string \<Rightarrow> string \<Rightarrow> DataFrame \<Rightarrow> string + string) \<Rightarrow> string \<Rightarrow> string \<Rightarrow> DataFrame
     \<Rightarrow> ValidationResult" where
  "validate_result llm question query result =
     (let iss = fst (basic_checks result); sug = snd (basic_checks result);
          verdict =
            (case llm question query result of
               Inr validation_text \<Rightarrow>
                 (let valid = (str_in ''is_valid: true'' (lower validation_text) \<or> length iss = 0);
                      conf = max 0 (min 1 (1 - of_nat (length iss) * (2 / 10)))
                  in (valid, conf))
             | Inl e \<Rightarrow>
                 (let valid = (length iss = 0) in (valid, if valid then 7 / 10 else 3 / 10)))
      in \<lparr>is_valid = fst verdict, confidence = snd verdict, issues = iss,
          suggestions = Present sug, quality_score = snd verdict,
          row_count = Present (len result),
          column_count = Present (length (columns result))\<rparr>)"

text \<open>
  The deterministic issue count in the words of the specification: one for an empty
  result, one when some cell is missing, one when some row occurs twice.
\<close>

definition has_null :: "DataFrame \<Rightarrow> bool" where
  "has_null d = list_ex (\<lambda>r. list_ex (\<lambda>i. cell_at i r = NaN) [0 ..< length (columns d)]) (rows d)"

definition has_duplicate :: "DataFrame \<Rightarrow> bool" where
  "has_duplicate d = (columns d \<noteq> [] \<and> \<not> distinct (rows d))"

definition issue_count :: "DataFrame \<Rightarrow> nat" where
  "issue_count d =
     (if rows d = [] then 1 else 0) + (if has_null d then 1 else 0)
       + (if has_duplicate d then 1 else 0)"

section \<open>The orchestrator\<close>





text \<open>
  The state shared by the four nodes. The dictionaries \<open>query_intent\<close> and
  \<open>validation_result\<close> start empty: an intent with every key absent, and no validation
  result. The channel \<open>messages\<close> is declared with \<open>operator.add\<close>, so the list a node
  writes is appended to the trace; every other channel is overwritten.
\<close>

definition empty_intent :: Intent where
  "empty_intent =
     \<lparr>query_type = Absent, entities = Absent, metrics = Absent, filters = Absent,
      aggregation = Absent, sort_by = Absent, limit = Absent\<rparr>"

record AgentState =
  question :: string
  query_intent :: Intent
  sql_query :: string
  extracted_data :: DataFrame
  validation_result :: "ValidationResult option"
  final_answer :: string
  messages :: "string list"
  error :: string














record Response =
  res_question :: string
  answer :: string
  data :: DataFrame
  validation :: "ValidationResult option"
  res_sql_query :: string
  res_messages :: "string list"
  res_error :: string


section \<open>The dataset as an object\<close>

text \<open>
  A pandas frame is an object: a variable holds a reference to it, and an operation
  either returns a new object or changes one in place. To follow what \<open>extract_by_intent\<close>
  does to the dataset, its strategies are written once more over a heap of frames:
  \<open>objects\<close> maps a reference to the frame stored there, \<open>next_ref\<close> is the next
  unused reference, and \<open>self_df\<close> is the reference that the attribute \<open>self.df\<close>
  holds. Every pandas operation the strategies use (\<open>copy\<close>, the selection
  \<open>result[result[col] == value]\<close>, \<open>groupby\<close> with a reduction and \<open>reset_index\<close>,
  \<open>sort_values\<close>, \<open>head\<close>, \<open>describe\<close> and the constructor) returns a new object,
  which \<open>new_frame\<close> stores at an unused reference; an assignment to a local variable
  rebinds that variable. An exception leaves the heap as it is when raised.
\<close>

record Heap =
  objects :: "nat \<Rightarrow> DataFrame option"
  next_ref :: nat
  self_df :: nat

definition frame_at :: "Heap \<Rightarrow> nat \<Rightarrow> DataFrame" where
  "frame_at h a = (case objects h a of Some d \<Rightarrow> d | None \<Rightarrow> empty_frame)"

definition new_frame :: "DataFrame \<Rightarrow> Heap \<Rightarrow> nat \<times> Heap" where
  "new_frame d h =
     (next_ref h, h\<lparr>objects := (objects h)(next_ref h \<mapsto> d), next_ref := Suc (next_ref h)\<rparr>)"

definition new_result :: "py_error + DataFrame \<Rightarrow> Heap \<Rightarrow> (py_error + nat) \<times> Heap" where
  "new_result r h =
     (case r of
        Inl e \<Rightarrow> (Inl e, h)
      | Inr d \<Rightarrow> (Inr (fst (new_frame d h)), snd (new_frame d h)))"

definition and_then ::
  "(py_error + nat) \<times> Heap \<Rightarrow> (nat \<Rightarrow> Heap \<Rightarrow> (py_error + nat) \<times> Heap)
     \<Rightarrow> (py_error + nat) \<times> Heap" where
  "and_then r f = (case fst r of Inl e \<Rightarrow> (Inl e, snd r) | Inr a \<Rightarrow> f a (snd r))"

definition heap_head10 :: "Heap \<Rightarrow> (py_error + nat) \<times> Heap" where
  "heap_head10 h = new_result (Inr (head10 (frame_at h (self_df h)))) h"

definition heap_extract_comparison :: "Intent \<Rightarrow> Heap \<Rightarrow> (py_error + nat) \<times> Heap" where
  "heap_extract_comparison intent h =
     (let d = frame_at h (self_df h);
          ents = get_or (entities intent) []; ms = get_or (metrics intent) [] in
      if ents = [] \<or> ms = [] then heap_head10 h
      else (case find_entity_col d ents of
              None \<Rightarrow> heap_head10 h
            | Some entity_col \<Rightarrow>
                if entity_col = [] then heap_head10 h
                else (case metric_col d ms of
                        Some m \<Rightarrow>
                          and_then (new_result (groupby_agg d entity_col m Sum) h)
                            (\<lambda>result h1.
                               new_result (Inr (sort_values m False (frame_at h1 result))) h1)
                      | None \<Rightarrow> heap_head10 h)))"

definition heap_extract_trend :: "Intent \<Rightarrow> Heap \<Rightarrow> (py_error + nat) \<times> Heap" where
  "heap_extract_trend intent h =
     (let d = frame_at h (self_df h); ms = get_or (metrics intent) [] in
      case find_date_col d of
        None \<Rightarrow> heap_head10 h
      | Some date_col \<Rightarrow>
          if date_col = [] \<or> ms = [] then heap_head10 h
          else (case metric_col d ms of
                  Some m \<Rightarrow>
                    and_then (new_result (groupby_agg d date_col m Sum) h)
                      (\<lambda>result h1.
                         new_result (Inr (sort_values date_col True (frame_at h1 result))) h1)
                | None \<Rightarrow> heap_head10 h))"

fun filter_loop :: "(string \<times> cell) list \<Rightarrow> nat \<Rightarrow> Heap \<Rightarrow> nat \<times> Heap" where
  "filter_loop [] result h = (result, h)"
| "filter_loop (f # fs) result h =
     (if fst f \<in> set (col_names (frame_at h result))
      then (let sel = new_frame (apply_filter f (frame_at h result)) h
            in filter_loop fs (fst sel) (snd sel))
      else filter_loop fs result h)"

definition heap_extract_filtered :: "Intent \<Rightarrow> Heap \<Rightarrow> (py_error + nat) \<times> Heap" where
  "heap_extract_filtered intent h =
     (let copy = new_frame (frame_at h (self_df h)) h;
          looped = filter_loop (get_or (filters intent) []) (fst copy) (snd copy);
          lim = get_or (limit intent) (Some 100)
      in new_result (Inr (head lim (frame_at (snd looped) (fst looped)))) (snd looped))"

definition heap_sort_desc_by :: "string option entry \<Rightarrow> nat \<Rightarrow> Heap \<Rightarrow> nat \<times> Heap" where
  "heap_sort_desc_by sb result h =
     (case get_or sb None of
        None \<Rightarrow> (result, h)
      | Some c \<Rightarrow>
          if c \<noteq> [] \<and> c \<in> set (col_names (frame_at h result))
          then new_frame (sort_values c False (frame_at h result)) h
          else (result, h))"

definition heap_extract_aggregation :: "Intent \<Rightarrow> Heap \<Rightarrow> (py_error + nat) \<times> Heap" where
  "heap_extract_aggregation intent h =
     (let d = frame_at h (self_df h);
          ents = get_or (entities intent) []; ms = get_or (metrics intent) [];
          aggr = get_or (aggregation intent) (Some ''sum'')
      in
      if ents = [] \<or> ms = [] then heap_head10 h
      else (case find_entity_col d ents of
              None \<Rightarrow> heap_head10 h
            | Some entity_col \<Rightarrow>
                if entity_col = [] then heap_head10 h
                else (case metric_col d ms of
                        None \<Rightarrow> heap_head10 h
                      | Some m \<Rightarrow>
                          (case aggr of
                             None \<Rightarrow>
                               (Inl (TypeError ''attribute name must be string, not NoneType''),
                                h)
                           | Some name \<Rightarrow>
                               (case groupby_method name of
                                  None \<Rightarrow> (Inl (TypeError ''str object is not callable''), h)
                                | Some f \<Rightarrow>
                                    and_then (new_result (groupby_agg d entity_col m f) h)
                                      (\<lambda>result h1.
                                         let sorted = heap_sort_desc_by (sort_by intent) result h1
                                         in new_result
                                              (Inr (head (get_or (limit intent) (Some 100))
                                                      (frame_at (snd sorted) (fst sorted))))
                                              (snd sorted)))))))"

definition heap_extract_summary ::
  "(DataFrame \<Rightarrow> py_error + DataFrame) \<Rightarrow> Intent \<Rightarrow> Heap \<Rightarrow> (py_error + nat) \<times> Heap" where
  "heap_extract_summary describe intent h =
     (let d = frame_at h (self_df h); ms = get_or (metrics intent) [] in
      if ms = []
      then (let sel = new_frame (select_numeric d) h
            in new_result (describe (frame_at (snd sel) (fst sel))) (snd sel))
      else (case metric_stats d (keep_first (filter (\<lambda>m. m \<in> set (col_names d)) ms)) of
              Inl e \<Rightarrow> (Inl e, h)
            | Inr stats \<Rightarrow>
                new_result
                  (Inr (if stats = [] then empty_frame
                        else \<lparr>columns = map fst stats, rows = [map snd stats]\<rparr>)) h))"

definition heap_extract_by_intent ::
  "(DataFrame \<Rightarrow> py_error + DataFrame) \<Rightarrow> Intent \<Rightarrow> Heap \<Rightarrow> (py_error + nat) \<times> Heap" where
  "heap_extract_by_intent describe intent h =
     (let qt = get_or (query_type intent) ''summary'' in
      if qt = ''summary'' then heap_extract_summary describe intent h
      else if qt = ''comparison'' then heap_extract_comparison intent h
      else if qt = ''trend'' then heap_extract_trend intent h
      else if qt = ''filter'' then heap_extract_filtered intent h
      else if qt = ''aggregation'' then heap_extract_aggregation intent h
      else heap_head10 h)"

section \<open>Notions of the specification\<close>

text \<open>
  The first \<open>min(n, number of rows)\<close> rows of a dataset, and the rows that have, in
  every filtered column that exists, the value of the filter.
\<close>

definition first_rows :: "nat \<Rightarrow> DataFrame \<Rightarrow> DataFrame" where
  "first_rows n d = d\<lparr>rows := take (min n (length (rows d))) (rows d)\<rparr>"

definition passes :: "DataFrame \<Rightarrow> (string \<times> cell) list \<Rightarrow> cell list \<Rightarrow> bool" where
  "passes d fs r =
     list_all (\<lambda>f. fst f \<notin> set (col_names d) \<or> cell_at (col_index d (fst f)) r = snd f \<and> snd f \<noteq> NaN) fs"

text \<open>
  The number a cell holds (0 for a cell that holds none), a column that holds numbers
  only, and the sum of a metric over the rows of one group.
\<close>

definition cell_value :: "cell \<Rightarrow> rat" where
  "cell_value v = (case v of Num a \<Rightarrow> a | _ \<Rightarrow> 0)"

definition numeric_col :: "DataFrame \<Rightarrow> string \<Rightarrow> bool" where
  "numeric_col d m = list_all (\<lambda>v. v = NaN \<or> num_of v \<noteq> None) (col_values d m)"

definition group_sum :: "DataFrame \<Rightarrow> string \<Rightarrow> string \<Rightarrow> cell \<Rightarrow> rat" where
  "group_sum d by m k =
     sum_list (map (\<lambda>r. cell_value (cell_at (col_index d m) r))
                 (filter (\<lambda>r. cell_at (col_index d by) r = k) (rows d)))"

text \<open>
  The comparison strategy as the specification words it: the entity column is resolved
  from the first entity alone.
\<close>

definition spec_comparison :: "DataFrame \<Rightarrow> Intent \<Rightarrow> py_error + DataFrame" where
  "spec_comparison d intent =
     (case get_or (entities intent) [] of
        [] \<Rightarrow> Inr (head10 d)
      | e # _ \<Rightarrow>
          (case get_or (metrics intent) [] of
             [] \<Rightarrow> Inr (head10 d)
           | m # _ \<Rightarrow>
               (case find (\<lambda>col. str_in (lower e) (lower col)) (col_names d) of
                  None \<Rightarrow> Inr (head10 d)
                | Some entity_col \<Rightarrow>
                    map_frame (sort_values m False) (groupby_agg d entity_col m Sum))))"

text \<open>
  The trend strategy as the specification words it: a column of type datetime is
  preferred, and only without one a column whose name contains \<open>date\<close> is taken.
\<close>

definition spec_date_col :: "DataFrame \<Rightarrow> string option" where
  "spec_date_col d =
     (case find (\<lambda>c. snd c = Datetime) (columns d) of
        Some c \<Rightarrow> Some (fst c)
      | None \<Rightarrow> map_option fst (find (\<lambda>c. str_in ''date'' (lower (fst c))) (columns d)))"

definition spec_trend :: "DataFrame \<Rightarrow> Intent \<Rightarrow> py_error + DataFrame" where
  "spec_trend d intent =
     (case get_or (metrics intent) [] of
        [] \<Rightarrow> Inr (head10 d)
      | m # _ \<Rightarrow>
          (case spec_date_col d of
             None \<Rightarrow> Inr (head10 d)
           | Some date_col \<Rightarrow>
               map_frame (sort_values date_col True) (groupby_agg d date_col m Sum)))"





text \<open>
  A heap \<open>h'\<close> preserves a heap \<open>h\<close> when \<open>self.df\<close> holds the same reference and
  every object of \<open>h\<close> is stored unchanged in \<open>h'\<close>. The value of a result is the
  frame at the reference returned, or the error raised.
\<close>

definition preserved :: "Heap \<Rightarrow> Heap \<Rightarrow> bool" where
  "preserved h h' =
     (self_df h' = self_df h \<and> next_ref h \<le> next_ref h'
      \<and> (\<forall>a. a < next_ref h \<longrightarrow> objects h' a = objects h a))"

definition value_of :: "(py_error + nat) \<times> Heap \<Rightarrow> py_error + DataFrame" where
  "value_of r = (case fst r of Inl e \<Rightarrow> Inl e | Inr a \<Rightarrow> Inr (frame_at (snd r) a))"

section \<open>Sample data\<close>

text \<open>
  Small datasets, an engine, agents, intents and a judging model, at which the
  properties are instantiated.
\<close>

definition sales :: DataFrame where
  "sales =
     \<lparr>columns = [(''Region'', Text), (''Category'', Text), (''Sales'', Numeric),
                 (''Order_Date'', Datetime)],
      rows = [[Str ''North'', Str ''Electronics'', Num 10, Date 3],
              [Str ''South'', Str ''Grocery'', Num 20, Date 1],
              [Str ''North'', Str ''Grocery'', Num 5, Date 2],
              [Str ''South'', Str ''Electronics'', Num 7, Date 1],
              [Str ''South'', Str ''Grocery'', Num 20, Date 1],
              [Str ''East'', NaN, Num 1, Date 4]]\<rparr>"

definition engine :: "string \<Rightarrow> string + DataFrame" where
  "engine q = (if q = ''SELECT * FROM sales_data'' then Inr sales else Inl ''Parser Error'')"

definition extractor :: DataExtractionAgent where
  "extractor = \<lparr>db_conn = engine, df = sales, last_query = None, last_result = None\<rparr>"

definition judge :: "string \<Rightarrow> string \<Rightarrow> DataFrame \<Rightarrow> string + string" where
  "judge q s d = (if q = [] then Inl ''rate limit'' else Inr ''Is_Valid: True, looks fine'')"

definition ledger :: DataFrame where
  "ledger = \<lparr>columns = [(''Amount'', Numeric)],
             rows = map (\<lambda>i. [Num (of_nat i)]) [0 ..< 12]\<rparr>"

definition intent_of :: "string \<Rightarrow> Intent" where
  "intent_of qt = empty_intent\<lparr>query_type := Present qt\<rparr>"

definition electronics :: Intent where
  "electronics = (intent_of ''filter'')
     \<lparr>filters := Present [(''Category'', Str ''Electronics'')], limit := Present (Some 5)\<rparr>"

definition ledger_agent :: DataExtractionAgent where
  "ledger_agent = \<lparr>db_conn = engine, df = ledger, last_query = None, last_result = None\<rparr>"

definition by_customer :: Intent where
  "by_customer = (intent_of ''comparison'')
     \<lparr>entities := Present [''Customer''], metrics := Present [''Sales'']\<rparr>"

definition profit_trend :: Intent where
  "profit_trend = (intent_of ''trend'')\<lparr>metrics := Present [''Profit'']\<rparr>"

definition by_category_region :: Intent where
  "by_category_region = (intent_of ''comparison'')
     \<lparr>entities := Present [''Category'', ''Region''], metrics := Present [''Sales'']\<rparr>"

definition by_region :: Intent where
  "by_region = (intent_of ''comparison'')
     \<lparr>entities := Present [''Region''], metrics := Present [''Sales'']\<rparr>"

definition shipments :: DataFrame where
  "shipments =
     \<lparr>columns = [(''Updated_By'', Text), (''Shipped_On'', Datetime), (''Sales'', Numeric)],
      rows = [[Str ''ann'', Date 2, Num 10],
              [Str ''bob'', Date 1, Num 20],
              [Str ''ann'', Date 1, Num 5]]\<rparr>"

definition shipping_agent :: DataExtractionAgent where
  "shipping_agent = \<lparr>db_conn = engine, df = shipments, last_query = None, last_result = None\<rparr>"

definition sales_trend :: Intent where
  "sales_trend = (intent_of ''trend'')\<lparr>metrics := Present [''Sales'']\<rparr>"

definition average_by_region :: Intent where
  "average_by_region = (intent_of ''aggregation'')
     \<lparr>entities := Present [''Region''], metrics := Present [''Sales''],
      aggregation := Present (Some ''avg'')\<rparr>"

definition mean_by_region :: Intent where
  "mean_by_region = (intent_of ''aggregation'')
     \<lparr>entities := Present [''Region''], metrics := Present [''Sales''],
      aggregation := Present (Some ''mean''), sort_by := Present (Some ''Sales''),
      limit := Present (Some 2)\<rparr>"



definition orders :: DataFrame where
  "orders = \<lparr>columns = [(''Category'', Text), (''Amount'', Numeric)],
             rows = map (\<lambda>i. [Str ''Grocery'', Num (of_nat i)]) [0 ..< 150]\<rparr>"

definition orders_agent :: DataExtractionAgent where
  "orders_agent = \<lparr>db_conn = engine, df = orders, last_query = None, last_result = None\<rparr>"

definition dumped_filter :: Intent where
  "dumped_filter =
     \<lparr>query_type = Present ''filter'', entities = Present [], metrics = Present [],
      filters = Present [(''Category'', Str ''Grocery'')], aggregation = Present None,
      sort_by = Present None, limit = Present None\<rparr>"

definition margin_trend :: Intent where
  "margin_trend = (intent_of ''trend'')\<lparr>metrics := Present [''Margin'']\<rparr>"

definition shop_heap :: Heap where
  "shop_heap = \<lparr>objects = (\<lambda>a. if a = 0 then Some sales else None), next_ref = 1, self_df = 0\<rparr>"

section \<open>Properties\<close>

subsection \<open>The deterministic checks of the validation agent\<close>

lemma len_zero_iff: "len d = 0 \<longleftrightarrow> rows d = []"
  by (simp add: len_def)

lemma sum_list_pos_iff: "(0 < sum_list (ns :: nat list)) = list_ex (\<lambda>n. 0 < n) ns"
  by (induction ns) auto

lemma filter_nonempty_iff: "(0 < length (filter P xs)) = list_ex P xs"
  by (induction xs) auto

lemma null_counts_pos: "(0 < sum_list (map snd (null_counts d))) = has_null d"
proof -
  have "(0 < sum_list (map snd (null_counts d)))
          = (\<exists>i \<in> set [0 ..< length (columns d)]. \<exists>r \<in> set (rows d). cell_at i r = NaN)"
    by (simp add: sum_list_pos_iff null_counts_def list_ex_iff comp_def filter_empty_conv
             del: set_upt)
  also have "\<dots> = has_null d"
    by (auto simp: has_null_def list_ex_iff)
  finally show ?thesis .
qed

lemma length_keep_first: "(length (keep_first xs) = length xs) = distinct xs"
proof -
  have "(length (remdups (rev xs)) = length (rev xs)) = distinct (rev xs)"
    by (metis length_remdups_eq remdups_id_iff_distinct)
  then show ?thesis by (simp add: keep_first_def)
qed

lemma duplicates_iff: "(len d \<noteq> len (drop_duplicates d)) = has_duplicate d"
proof (cases "rows d = [] \<or> columns d = []")
  case True
  then show ?thesis by (auto simp: drop_duplicates_def has_duplicate_def)
next
  case False
  then show ?thesis
    using length_keep_first [of "rows d"]
    by (auto simp: drop_duplicates_def has_duplicate_def len_def)
qed

lemma length_basic_checks: "length (fst (basic_checks d)) = issue_count d"
  using null_counts_pos [of d] duplicates_iff [of d]
  by (simp add: basic_checks_def check_empty_def check_nulls_def check_duplicates_def
        issue_count_def len_zero_iff Let_def)

lemma basic_checks_nil_iff: "(fst (basic_checks d) = []) = (issue_count d = 0)"
  using length_basic_checks [of d] by (metis length_0_conv)

lemma issue_count_le: "issue_count d \<le> 3"
  by (simp add: issue_count_def)

subsection \<open>Validation\<close>

text \<open>
  Claim C5. When the call to the language model succeeds, \<open>validate_result\<close> returns
  \<open>is_valid\<close> true exactly when the reply contains \<open>is_valid: true\<close> (in any case)
  or the deterministic issue count (empty result, missing values, duplicate rows) is
  zero; the confidence is \<open>1 - 0.2 \<times> issue count\<close> clamped to \<open>[0, 1]\<close>; the quality score
  equals the confidence; and for every input, whatever the model does, confidence and
  quality score lie in \<open>[0, 1]\<close>.
\<close>

theorem validate_result_llm_success:
  assumes "llm qn sql rel = Inr reply"
  shows "is_valid (validate_result llm qn sql rel)
           = (str_in ''is_valid: true'' (lower reply) \<or> issue_count rel = 0)
         \<and> confidence (validate_result llm qn sql rel)
           = max 0 (min 1 (1 - (2 / 10) * of_nat (issue_count rel)))
         \<and> quality_score (validate_result llm qn sql rel)
           = confidence (validate_result llm qn sql rel)
         \<and> 0 \<le> confidence (validate_result any_llm q s d)
         \<and> confidence (validate_result any_llm q s d) \<le> 1
         \<and> 0 \<le> quality_score (validate_result any_llm q s d)
         \<and> quality_score (validate_result any_llm q s d) \<le> 1"
proof -
  have ok: "is_valid (validate_result llm qn sql rel)
           = (str_in ''is_valid: true'' (lower reply) \<or> issue_count rel = 0)
         \<and> confidence (validate_result llm qn sql rel)
           = max 0 (min 1 (1 - (2 / 10) * of_nat (issue_count rel)))
         \<and> quality_score (validate_result llm qn sql rel)
           = confidence (validate_result llm qn sql rel)"
    using assms by (simp add: validate_result_def Let_def length_basic_checks basic_checks_nil_iff mult.commute)
  have bounds: "0 \<le> confidence (validate_result any_llm q s d)
         \<and> confidence (validate_result any_llm q s d) \<le> 1
         \<and> quality_score (validate_result any_llm q s d)
             = confidence (validate_result any_llm q s d)"
    by (cases "any_llm q s d") (simp_all add: validate_result_def Let_def)
  from ok bounds show ?thesis by simp
qed

theorem validate_result_llm_success_witness:
  "judge ''total sales?'' ''SELECT 1'' sales = Inr ''Is_Valid: True, looks fine''
   \<and> is_valid (validate_result judge ''total sales?'' ''SELECT 1'' sales)
   \<and> confidence (validate_result judge ''total sales?'' ''SELECT 1'' sales) = 3 / 5
   \<and> quality_score (validate_result judge ''total sales?'' ''SELECT 1'' sales) = 3 / 5"
proof -
  have h: "judge ''total sales?'' ''SELECT 1'' sales = Inr ''Is_Valid: True, looks fine''"
    by (simp add: judge_def)
  have c: "issue_count sales = 2"
    by code_simp
  have t: "str_in ''is_valid: true'' (lower ''Is_Valid: True, looks fine'')"
    by code_simp
  show ?thesis
    using validate_result_llm_success
            [where llm = judge and qn = "''total sales?''" and sql = "''SELECT 1''" and rel = sales
               and reply = "''Is_Valid: True, looks fine''", OF h] c t h
    by simp
qed

text \<open>
  Claim C6. When the call to the language model fails, \<open>validate_result\<close> still returns
  a result: \<open>is_valid\<close> is true exactly when the deterministic issue count is zero, the
  confidence is 0.7 if valid and 0.3 otherwise, the quality score equals the confidence,
  and the issues and suggestions are those of the deterministic checks, the same lists
  that any other behaviour of the model would have returned.
\<close>

theorem validate_result_llm_failure:
  assumes "llm qn sql rel = Inl e"
  shows "is_valid (validate_result llm qn sql rel) = (issue_count rel = 0)
         \<and> confidence (validate_result llm qn sql rel)
           = (if is_valid (validate_result llm qn sql rel) then 7 / 10 else 3 / 10)
         \<and> quality_score (validate_result llm qn sql rel)
           = confidence (validate_result llm qn sql rel)
         \<and> issues (validate_result llm qn sql rel) = fst (basic_checks rel)
         \<and> suggestions (validate_result llm qn sql rel)
           = Present (snd (basic_checks rel))
         \<and> issues (validate_result llm qn sql rel)
           = issues (validate_result other_llm qn sql rel)
         \<and> suggestions (validate_result llm qn sql rel)
           = suggestions (validate_result other_llm qn sql rel)"
  using assms by (simp add: validate_result_def Let_def length_basic_checks basic_checks_nil_iff)

theorem validate_result_llm_failure_witness:
  "judge [] ''SELECT 1'' sales = Inl ''rate limit''
   \<and> \<not> is_valid (validate_result judge [] ''SELECT 1'' sales)
   \<and> confidence (validate_result judge [] ''SELECT 1'' sales) = 3 / 10
   \<and> quality_score (validate_result judge [] ''SELECT 1'' sales) = 3 / 10
   \<and> issues (validate_result judge [] ''SELECT 1'' sales)
       = [NullValues [(''Category'', 1)], DuplicateRows 1]"
proof -
  have h: "judge [] ''SELECT 1'' sales = Inl ''rate limit''"
    by (simp add: judge_def)
  have c: "issue_count sales = 2"
    by code_simp
  have b: "fst (basic_checks sales) = [NullValues [(''Category'', 1)], DuplicateRows 1]"
    by code_simp
  show ?thesis
    using validate_result_llm_failure
            [where llm = judge and qn = "[]" and sql = "''SELECT 1''" and rel = sales
               and e = "''rate limit''", OF h] c b h
    by simp
qed

subsection \<open>Extraction\<close>

text \<open>
  Claim C9. \<open>execute_sql\<close> is atomic on failure: when the engine raises, the error is
  passed on and the recorded \<open>last_query\<close> and \<open>last_result\<close> are what they were before
  the call; when the engine succeeds, they become the executed query and its result.
\<close>

theorem execute_sql_atomic:
  "(db_conn self q = Inl e \<longrightarrow>
      fst (execute_sql self q) = Inl e
      \<and> last_query (snd (execute_sql self q)) = last_query self
      \<and> last_result (snd (execute_sql self q)) = last_result self)
   \<and> (db_conn self q = Inr r \<longrightarrow>
      fst (execute_sql self q) = Inr r
      \<and> last_query (snd (execute_sql self q)) = Some q
      \<and> last_result (snd (execute_sql self q)) = Some r)"
  by (simp add: execute_sql_def)

theorem execute_sql_atomic_witness:
  "db_conn extractor ''DROP'' = Inl ''Parser Error''
   \<and> last_query (snd (execute_sql extractor ''DROP'')) = None
   \<and> last_result (snd (execute_sql extractor ''DROP'')) = None
   \<and> db_conn extractor ''SELECT * FROM sales_data'' = Inr sales
   \<and> last_query (snd (execute_sql extractor ''SELECT * FROM sales_data''))
       = Some ''SELECT * FROM sales_data''
   \<and> last_result (snd (execute_sql extractor ''SELECT * FROM sales_data'')) = Some sales"
proof -
  have bad: "db_conn extractor ''DROP'' = Inl ''Parser Error''"
    by (simp add: extractor_def engine_def)
  have good: "db_conn extractor ''SELECT * FROM sales_data'' = Inr sales"
    by (simp add: extractor_def engine_def)
  have none: "last_query extractor = None" "last_result extractor = None"
    by (simp_all add: extractor_def)
  show ?thesis
    using execute_sql_atomic [of extractor "''DROP''" "''Parser Error''" sales]
      execute_sql_atomic [of extractor "''SELECT * FROM sales_data''" "''x''" sales]
      bad good none
    by simp
qed

subsection \<open>The fallback and the filter strategy\<close>

lemma head10_first_rows: "head10 d = first_rows 10 d"
proof -
  have "take (min 10 (length (rows d))) (rows d) = take 10 (rows d)"
    by (cases "length (rows d) \<le> 10") (simp_all add: min_def)
  then show ?thesis by (simp add: head10_def head_def first_rows_def)
qed

lemma find_entity_col_None:
  "find_entity_col d ents = None
     \<longleftrightarrow> \<not> (\<exists>c \<in> set (col_names d). \<exists>e \<in> set ents. str_in (lower e) (lower c))"
  by (auto simp: find_entity_col_def find_None_iff entity_matches_def list_ex_iff)

lemma find_date_col_None:
  "find_date_col d = None
     \<longleftrightarrow> \<not> (\<exists>c \<in> set (columns d). snd c = Datetime \<or> str_in ''date'' (lower (fst c)))"
  by (auto simp: find_date_col_def find_None_iff is_date_col_def)

lemma metric_col_None:
  "ms = [] \<or> hd ms \<notin> set (col_names d) \<Longrightarrow> metric_col d ms = None"
  by (cases ms) (auto simp: metric_col_def)

lemma comparison_fallback:
  assumes "get_or (entities intent) [] = [] \<or> get_or (metrics intent) [] = []
           \<or> find_entity_col d (get_or (entities intent) []) = None
           \<or> hd (get_or (metrics intent) []) \<notin> set (col_names d)"
  shows "extract_comparison d intent = Inr (head10 d)"
  using assms metric_col_None [of "get_or (metrics intent) []" d]
  by (auto simp: extract_comparison_def Let_def split: option.splits)

lemma aggregation_fallback:
  assumes "get_or (entities intent) [] = [] \<or> get_or (metrics intent) [] = []
           \<or> find_entity_col d (get_or (entities intent) []) = None
           \<or> hd (get_or (metrics intent) []) \<notin> set (col_names d)"
  shows "extract_aggregation d intent = Inr (head10 d)"
  using assms metric_col_None [of "get_or (metrics intent) []" d]
  by (auto simp: extract_aggregation_def Let_def split: option.splits)

lemma trend_fallback:
  assumes "get_or (metrics intent) [] = [] \<or> find_date_col d = None
           \<or> hd (get_or (metrics intent) []) \<notin> set (col_names d)"
  shows "extract_trend d intent = Inr (head10 d)"
  using assms metric_col_None [of "get_or (metrics intent) []" d]
  by (auto simp: extract_trend_def Let_def split: option.splits)

text \<open>
  Claim C8. For an intent whose \<open>query_type\<close> is none of \<open>summary\<close>, \<open>comparison\<close>,
  \<open>trend\<close>, \<open>filter\<close>, \<open>aggregation\<close>, \<open>extract_by_intent\<close> returns the first
  \<open>min(10, number of rows)\<close> rows of the dataset, unmodified and in their order. The
  comparison and aggregation strategies return the same rows whenever the entities or
  metrics are empty, no column name contains an entity, or the first metric is not a
  column; the trend strategy whenever the metrics are empty, there is no date column, or
  the first metric is not a column.
\<close>

theorem extract_by_intent_fallback:
  "(get_or (query_type intent) ''summary''
      \<notin> {''summary'', ''comparison'', ''trend'', ''filter'', ''aggregation''}
    \<longrightarrow> fst (extract_by_intent describe self intent) = Inr (first_rows 10 (df self)))
   \<and> ((get_or (query_type intent) ''summary'' = ''comparison''
        \<or> get_or (query_type intent) ''summary'' = ''aggregation'')
       \<and> (get_or (entities intent) [] = [] \<or> get_or (metrics intent) [] = []
          \<or> \<not> (\<exists>c \<in> set (col_names (df self)). \<exists>e \<in> set (get_or (entities intent) []).
                   str_in (lower e) (lower c))
          \<or> hd (get_or (metrics intent) []) \<notin> set (col_names (df self)))
    \<longrightarrow> fst (extract_by_intent describe self intent) = Inr (first_rows 10 (df self)))
   \<and> (get_or (query_type intent) ''summary'' = ''trend''
       \<and> (get_or (metrics intent) [] = []
          \<or> \<not> (\<exists>c \<in> set (columns (df self)). snd c = Datetime \<or> str_in ''date'' (lower (fst c)))
          \<or> hd (get_or (metrics intent) []) \<notin> set (col_names (df self)))
    \<longrightarrow> fst (extract_by_intent describe self intent) = Inr (first_rows 10 (df self)))"
proof (intro conjI impI)
  assume "get_or (query_type intent) ''summary''
      \<notin> {''summary'', ''comparison'', ''trend'', ''filter'', ''aggregation''}"
  then show "fst (extract_by_intent describe self intent) = Inr (first_rows 10 (df self))"
    by (simp add: extract_by_intent_def Let_def head10_first_rows)
next
  assume a: "(get_or (query_type intent) ''summary'' = ''comparison''
        \<or> get_or (query_type intent) ''summary'' = ''aggregation'')
       \<and> (get_or (entities intent) [] = [] \<or> get_or (metrics intent) [] = []
          \<or> \<not> (\<exists>c \<in> set (col_names (df self)). \<exists>e \<in> set (get_or (entities intent) []).
                   str_in (lower e) (lower c))
          \<or> hd (get_or (metrics intent) []) \<notin> set (col_names (df self)))"
  then have b: "get_or (entities intent) [] = [] \<or> get_or (metrics intent) [] = []
           \<or> find_entity_col (df self) (get_or (entities intent) []) = None
           \<or> hd (get_or (metrics intent) []) \<notin> set (col_names (df self))"
    by (simp only: find_entity_col_None)
  from a show "fst (extract_by_intent describe self intent) = Inr (first_rows 10 (df self))"
    using comparison_fallback [OF b] aggregation_fallback [OF b]
    by (auto simp: extract_by_intent_def Let_def head10_first_rows)
next
  assume a: "get_or (query_type intent) ''summary'' = ''trend''
       \<and> (get_or (metrics intent) [] = []
          \<or> \<not> (\<exists>c \<in> set (columns (df self)). snd c = Datetime \<or> str_in ''date'' (lower (fst c)))
          \<or> hd (get_or (metrics intent) []) \<notin> set (col_names (df self)))"
  then have b: "get_or (metrics intent) [] = [] \<or> find_date_col (df self) = None
           \<or> hd (get_or (metrics intent) []) \<notin> set (col_names (df self))"
    by (simp only: find_date_col_None)
  from a show "fst (extract_by_intent describe self intent) = Inr (first_rows 10 (df self))"
    using trend_fallback [OF b]
    by (auto simp: extract_by_intent_def Let_def head10_first_rows)
qed

lemma apply_filter_columns: "columns (apply_filter f d) = columns d"
  by (simp add: apply_filter_def)

lemma apply_filters_eq:
  "apply_filters fs d = d\<lparr>rows := filter (passes d fs) (rows d)\<rparr>"
proof (induction fs arbitrary: d)
  case Nil
  then show ?case by (simp add: passes_def)
next
  case (Cons f fs)
  have p: "passes (apply_filter f d) fs = passes d fs"
    by (rule ext) (simp add: passes_def col_names_def col_index_def apply_filter_columns)
  show ?case
    by (simp add: Cons.IH p)
       (auto simp: apply_filter_def passes_def cell_eq_def intro!: DataFrame.equality filter_cong)
qed

text \<open>
  The filter strategy when the key \<open>limit\<close> is absent or holds a number: the rows that
  pass every equality filter whose column exists are kept in their order and truncated to
  the limit, 100 when the key is absent, and every returned row has, in each such column,
  the value of the filter.
\<close>

lemma extract_filtered_rows:
  assumes "get_or (query_type intent) ''summary'' = ''filter''"
      and "limit intent = Absent \<and> n = 100 \<or> limit intent = Present (Some (int n))"
  shows "\<exists>res. fst (extract_by_intent describe self intent) = Inr res
          \<and> columns res = columns (df self)
          \<and> rows res = take n (filter (passes (df self) (get_or (filters intent) []))
                                  (rows (df self)))
          \<and> length (rows res) \<le> n
          \<and> (\<forall>r \<in> set (rows res). \<forall>f \<in> set (get_or (filters intent) []).
                fst f \<in> set (col_names (df self))
                \<longrightarrow> cell_at (col_index (df self) (fst f)) r = snd f)"
proof -
  let ?fs = "get_or (filters intent) []"
  let ?kept = "filter (passes (df self) ?fs) (rows (df self))"
  have lim: "get_or (limit intent) (Some 100) = Some (int n)"
    using assms(2) by auto
  have res: "fst (extract_by_intent describe self intent)
               = Inr ((df self)\<lparr>rows := take n ?kept\<rparr>)"
    using assms(1) by (simp add: extract_by_intent_def extract_filtered_def Let_def lim
                         head_def apply_filters_eq)
  have sat: "\<forall>r \<in> set (take n ?kept). \<forall>f \<in> set ?fs.
                fst f \<in> set (col_names (df self))
                \<longrightarrow> cell_at (col_index (df self) (fst f)) r = snd f"
  proof (intro ballI impI)
    fix r f
    assume "r \<in> set (take n ?kept)" and f: "f \<in> set ?fs"
      and c: "fst f \<in> set (col_names (df self))"
    then have "r \<in> set ?kept" by (meson in_set_takeD)
    then have "passes (df self) ?fs r" by simp
    with f c show "cell_at (col_index (df self) (fst f)) r = snd f"
      by (auto simp: passes_def list_all_iff)
  qed
  from res sat show ?thesis by simp
qed

lemma extract_filtered_rows_witness:
  "get_or (query_type electronics) ''summary'' = ''filter''
   \<and> limit electronics = Present (Some (int 5))
   \<and> fst (extract_by_intent Inr extractor electronics)
       = Inr \<lparr>columns = columns sales,
              rows = [[Str ''North'', Str ''Electronics'', Num 10, Date 3],
                      [Str ''South'', Str ''Electronics'', Num 7, Date 1]]\<rparr>"
proof -
  have h1: "get_or (query_type electronics) ''summary'' = ''filter''"
    by (simp add: electronics_def intent_of_def)
  have h2: "limit electronics = Absent \<and> (5::nat) = 100
            \<or> limit electronics = Present (Some (int 5))"
    by (simp add: electronics_def)
  have k: "take 5 (filter (passes (df extractor) (get_or (filters electronics) []))
                   (rows (df extractor)))
           = [[Str ''North'', Str ''Electronics'', Num 10, Date 3],
              [Str ''South'', Str ''Electronics'', Num 7, Date 1]]"
    by code_simp
  have c: "df extractor = sales"
    by (simp add: extractor_def)
  obtain res where r: "fst (extract_by_intent Inr extractor electronics) = Inr res"
     "columns res = columns (df extractor)"
     "rows res = take 5 (filter (passes (df extractor) (get_or (filters electronics) []))
                                  (rows (df extractor)))"
    using extract_filtered_rows [OF h1 h2, of Inr extractor] by blast
  then have "res = \<lparr>columns = columns sales,
              rows = [[Str ''North'', Str ''Electronics'', Num 10, Date 3],
                      [Str ''South'', Str ''Electronics'', Num 7, Date 1]]\<rparr>"
    using k c by simp
  with r(1) h1 show ?thesis by (simp add: electronics_def)
qed

lemma filter_map_all: "(\<And>x. P (f x)) \<Longrightarrow> filter P (map f xs) = map f xs"
  by (induction xs) auto

lemma orders_pass:
  "filter (passes orders [(''Category'', Str ''Grocery'')]) (rows orders) = rows orders"
proof -
  have "\<And>i. passes orders [(''Category'', Str ''Grocery'')] [Str ''Grocery'', Num (of_nat i)]"
    by (simp add: passes_def orders_def col_names_def col_index_def cell_at_def)
  then have "filter (passes orders [(''Category'', Str ''Grocery'')])
               (map (\<lambda>i. [Str ''Grocery'', Num (of_nat i)]) [0 ..< 150])
             = map (\<lambda>i. [Str ''Grocery'', Num (of_nat i)]) [0 ..< 150]"
    by (rule filter_map_all)
  then show ?thesis
    by (simp add: orders_def del: upt_rec_numeral)
qed

text \<open>
  Claim C4. A filter intent with no limit should be truncated to 100 rows. The code reads
  the limit with \<open>intent.get('limit', 100)\<close>, whose default applies only when the key
  is absent. The dictionary of a \<open>QueryIntent\<close> without a limit holds the key with the
  value \<open>None\<close>, and \<open>head(None)\<close> keeps every row: over 150 rows that all pass
  the filter the code returns 150 rows, where the same intent without the key returns
  100.
\<close>

theorem filter_limit_none_not_truncated:
  "fst (extract_by_intent Inr orders_agent dumped_filter) = Inr orders
   \<and> len orders = 150
   \<and> fst (extract_by_intent Inr orders_agent (dumped_filter\<lparr>limit := Absent\<rparr>))
       = Inr (orders\<lparr>rows := take 100 (rows orders)\<rparr>)
   \<and> len (orders\<lparr>rows := take 100 (rows orders)\<rparr>) = 100"
proof -
  have a: "apply_filters [(''Category'', Str ''Grocery'')] orders = orders"
    unfolding apply_filters_eq orders_pass by simp
  have l: "len orders = 150"
    by (simp add: len_def orders_def del: upt_rec_numeral)
  have r1: "fst (extract_by_intent Inr orders_agent dumped_filter) = Inr orders"
    by (simp add: extract_by_intent_def extract_filtered_def dumped_filter_def orders_agent_def
          a head_def del: apply_filters.simps)
  have r2: "fst (extract_by_intent Inr orders_agent (dumped_filter\<lparr>limit := Absent\<rparr>))
              = Inr (orders\<lparr>rows := take 100 (rows orders)\<rparr>)"
    by (simp add: extract_by_intent_def extract_filtered_def dumped_filter_def orders_agent_def
          a head_def del: apply_filters.simps)
  have l2: "len (orders\<lparr>rows := take 100 (rows orders)\<rparr>) = 100"
    using l by (simp add: len_def)
  from r1 l r2 l2 show ?thesis by simp
qed

theorem extract_by_intent_fallback_witness:
  "get_or (query_type (intent_of ''ranking'')) ''summary''
      \<notin> {''summary'', ''comparison'', ''trend'', ''filter'', ''aggregation''}
   \<and> fst (extract_by_intent Inr ledger_agent (intent_of ''ranking''))
       = Inr \<lparr>columns = [(''Amount'', Numeric)],
              rows = [[Num 0], [Num 1], [Num 2], [Num 3], [Num 4], [Num 5], [Num 6], [Num 7],
                      [Num 8], [Num 9]]\<rparr>
   \<and> get_or (query_type by_customer) ''summary'' = ''comparison''
   \<and> \<not> (\<exists>c \<in> set (col_names (df extractor)). \<exists>e \<in> set (get_or (entities by_customer) []).
            str_in (lower e) (lower c))
   \<and> fst (extract_by_intent Inr extractor by_customer) = Inr (first_rows 10 sales)
   \<and> get_or (query_type profit_trend) ''summary'' = ''trend''
   \<and> hd (get_or (metrics profit_trend) []) \<notin> set (col_names (df extractor))
   \<and> fst (extract_by_intent Inr extractor profit_trend) = Inr (first_rows 10 sales)"
proof -
  have h1: "get_or (query_type (intent_of ''ranking'')) ''summary''
      \<notin> {''summary'', ''comparison'', ''trend'', ''filter'', ''aggregation''}"
    by (simp add: intent_of_def)
  have h2: "get_or (query_type by_customer) ''summary'' = ''comparison''"
    by (simp add: by_customer_def intent_of_def)
  have h3: "\<not> (\<exists>c \<in> set (col_names (df extractor)).
               \<exists>e \<in> set (get_or (entities by_customer) []). str_in (lower e) (lower c))"
    by code_simp
  have h4: "get_or (query_type profit_trend) ''summary'' = ''trend''"
    by (simp add: profit_trend_def intent_of_def)
  have h5: "hd (get_or (metrics profit_trend) []) \<notin> set (col_names (df extractor))"
    by code_simp
  have f: "first_rows 10 (df ledger_agent)
            = \<lparr>columns = [(''Amount'', Numeric)],
              rows = [[Num 0], [Num 1], [Num 2], [Num 3], [Num 4], [Num 5], [Num 6], [Num 7],
                      [Num 8], [Num 9]]\<rparr>"
    by code_simp
  have c: "df extractor = sales"
    by (simp add: extractor_def)
  show ?thesis
    using extract_by_intent_fallback [of "intent_of ''ranking''" Inr ledger_agent]
      extract_by_intent_fallback [of by_customer Inr extractor]
      extract_by_intent_fallback [of profit_trend Inr extractor]
      h1 h2 h3 h4 h5 f c
    by simp
qed

subsection \<open>Sorting\<close>

lemma set_insort_by: "set (insort_by le x xs) = insert x (set xs)"
  by (induction xs) auto

lemma length_insort_by: "length (insort_by le x xs) = Suc (length xs)"
  by (induction xs) auto

lemma distinct_insort_by: "distinct (insort_by le x xs) = (x \<notin> set xs \<and> distinct xs)"
  by (induction xs) (auto simp: set_insort_by)

lemma set_sort_by: "set (sorted_by le xs) = set xs"
  by (induction xs) (simp_all add: sorted_by_def set_insort_by)

lemma length_sort_by: "length (sorted_by le xs) = length xs"
  by (induction xs) (simp_all add: sorted_by_def length_insort_by)

lemma distinct_sort_by: "distinct (sorted_by le xs) = distinct xs"
  by (induction xs) (simp_all add: sorted_by_def distinct_insort_by set_sort_by [unfolded sorted_by_def])

lemma sorted_insort_by:
  assumes tot: "\<And>a b. le a b \<or> le b a" and trans: "\<And>a b c. le a b \<Longrightarrow> le b c \<Longrightarrow> le a c"
  shows "sorted_wrt le xs \<Longrightarrow> sorted_wrt le (insort_by le x xs)"
proof (induction xs)
  case Nil
  then show ?case by simp
next
  case (Cons y ys)
  show ?case
  proof (cases "le x y")
    case True
    then have "\<forall>z \<in> set ys. le x z"
      using Cons.prems trans by auto
    with True Cons.prems show ?thesis by simp
  next
    case False
    then have "le y x" using tot by blast
    with False Cons show ?thesis by (auto simp: set_insort_by)
  qed
qed

lemma sorted_sort_by:
  assumes tot: "\<And>a b. le a b \<or> le b a" and trans: "\<And>a b c. le a b \<Longrightarrow> le b c \<Longrightarrow> le a c"
  shows "sorted_wrt le (sorted_by le xs)"
proof (induction xs)
  case Nil
  then show ?case by (simp add: sorted_by_def)
next
  case (Cons x xs)
  then show ?case
    using sorted_insort_by [of le, OF tot trans] by (simp add: sorted_by_def)
qed

lemma str_le_total: "str_le a b \<or> str_le b a"
  by (induction a b rule: str_le.induct) auto

lemma str_le_trans: "str_le a b \<Longrightarrow> str_le b c \<Longrightarrow> str_le a c"
proof (induction a b arbitrary: c rule: str_le.induct)
  case (1 t)
  then show ?case by simp
next
  case (2 c cs)
  then show ?case by simp
next
  case (3 x xs y ys)
  then show ?case by (cases c) auto
qed

lemma cell_le_total: "cell_le a b \<or> cell_le b a"
  by (cases a; cases b) (simp_all add: str_le_total linear)

lemma cell_le_trans: "cell_le a b \<Longrightarrow> cell_le b c \<Longrightarrow> cell_le a c"
  by (cases a; cases b; cases c) (simp_all add: str_le_trans [of _ _ _])

lemma cell_ge_total: "cell_ge a b \<or> cell_ge b a"
  using cell_le_total [of a b] by (auto simp: cell_ge_def)

lemma cell_ge_trans: "cell_ge a b \<Longrightarrow> cell_ge b c \<Longrightarrow> cell_ge a c"
  using cell_le_trans [of c b a] by (auto simp: cell_ge_def split: if_splits)

lemma sorted_sort_values:
  "sorted_wrt (\<lambda>r s. (if asc then cell_le else cell_ge) (cell_at (col_index d c) r)
                       (cell_at (col_index d c) s))
     (rows (sort_values c asc d))"
proof -
  let ?le = "\<lambda>r s. (if asc then cell_le else cell_ge) (cell_at (col_index d c) r)
                       (cell_at (col_index d c) s)"
  have tot: "\<And>a b. ?le a b \<or> ?le b a"
    using cell_le_total cell_ge_total by simp
  have trans: "\<And>a b c. ?le a b \<Longrightarrow> ?le b c \<Longrightarrow> ?le a c"
    using cell_le_trans cell_ge_trans by (auto split: if_splits)
  show ?thesis
    using sorted_sort_by [of ?le, OF tot trans] by (simp add: sort_values_def Let_def)
qed

lemma rows_sort_values:
  "set (rows (sort_values c asc d)) = set (rows d)"
  "length (rows (sort_values c asc d)) = length (rows d)"
  "columns (sort_values c asc d) = columns d"
  by (simp_all add: sort_values_def Let_def set_sort_by length_sort_by)

subsection \<open>Grouping and the comparison strategy\<close>

lemma cell_value_simps: "cell_value (Num a) = a" "cell_value NaN = 0"
  by (simp_all add: cell_value_def)

lemma find_first:
  "xs = pre @ x # post \<Longrightarrow> \<forall>y \<in> set pre. \<not> P y \<Longrightarrow> P x \<Longrightarrow> find P xs = Some x"
  by (induction pre arbitrary: xs) auto

lemma nums_of_present:
  "list_all (\<lambda>v. v = NaN \<or> num_of v \<noteq> None) vs
     \<Longrightarrow> \<exists>as. nums_of (present vs) = Some as \<and> sum_list as = sum_list (map cell_value vs)"
proof (induction vs)
  case Nil
  then show ?case by (simp add: present_def)
next
  case (Cons v vs)
  then obtain as where as: "nums_of (present vs) = Some as"
      "sum_list as = sum_list (map cell_value vs)"
    by auto
  show ?case
  proof (cases v)
    case (Num a)
    with as show ?thesis by (simp add: present_def cell_value_simps)
  next
    case NaN
    with as show ?thesis by (simp add: present_def cell_value_simps)
  qed (use Cons.prems in simp_all)
qed

lemma aggregate_Sum:
  "list_all (\<lambda>v. v = NaN \<or> num_of v \<noteq> None) vs
     \<Longrightarrow> aggregate Sum vs = Inr (Num (sum_list (map cell_value vs)))"
  using nums_of_present [of vs] by (auto simp: aggregate_def Let_def)

lemma group_values_numeric:
  "numeric_col d m \<Longrightarrow> list_all (\<lambda>v. v = NaN \<or> num_of v \<noteq> None) (group_values d by m k)"
  by (auto simp: numeric_col_def group_values_def col_values_def list_all_iff)

lemma group_sum_aggregate:
  "numeric_col d m \<Longrightarrow> aggregate Sum (group_values d by m k) = Inr (Num (group_sum d by m k))"
  using aggregate_Sum [OF group_values_numeric, of d m _ k]
  by (simp add: group_sum_def group_values_def comp_def)

lemma group_rows_map:
  "\<forall>k \<in> set ks. g k = Inr (v k) \<Longrightarrow> group_rows g ks = Inr (map (\<lambda>k. [k, v k]) ks)"
  by (induction ks) auto

lemma groupby_agg_Sum:
  assumes "numeric_col d m" and "by \<noteq> m"
  shows "groupby_agg d by m Sum
           = Inr \<lparr>columns = [(by, col_dtype d by), (m, Numeric)],
                  rows = map (\<lambda>k. [k, Num (group_sum d by m k)]) (group_keys d by)\<rparr>"
proof -
  have "group_rows (\<lambda>k. aggregate Sum (group_values d by m k)) (group_keys d by)
          = Inr (map (\<lambda>k. [k, Num (group_sum d by m k)]) (group_keys d by))"
    by (rule group_rows_map) (simp add: group_sum_aggregate [OF assms(1)])
  with assms(2) show ?thesis
    by (simp add: groupby_agg_def agg_dtype_def)
qed

lemma set_group_keys: "set (group_keys d by) = set (col_values d by) - {NaN}"
  by (auto simp: group_keys_def set_sort_by present_def)

lemma distinct_group_keys: "distinct (group_keys d by)"
  by (simp add: group_keys_def distinct_sort_by)

lemma length_group_keys: "length (group_keys d by) = card (set (col_values d by) - {NaN})"
  using distinct_card [OF distinct_group_keys] by (simp add: set_group_keys)

lemma col_index_pair: "by \<noteq> m \<Longrightarrow>
   col_index \<lparr>columns = [(by, s), (m, t)], rows = rs\<rparr> m = 1
   \<and> col_index \<lparr>columns = [(by, s), (m, t)], rows = rs\<rparr> by = 0"
  by (simp add: col_index_def col_names_def)

lemma comparison_groups:
  assumes cols: "col_names d = pre @ ec # post"
      and pre: "\<forall>c \<in> set pre. \<forall>e \<in> set (get_or (entities intent) []). \<not> str_in (lower e) (lower c)"
      and ec: "\<exists>e \<in> set (get_or (entities intent) []). str_in (lower e) (lower ec)"
      and ne: "ec \<noteq> []"
      and ms: "get_or (metrics intent) [] = m # rest"
      and m: "m \<in> set (col_names d)" "m \<noteq> []" "m \<noteq> ec"
      and num: "numeric_col d m"
  shows "extract_comparison d intent
           = Inr (sort_values m False
                    \<lparr>columns = [(ec, col_dtype d ec), (m, Numeric)],
                     rows = map (\<lambda>k. [k, Num (group_sum d ec m k)]) (group_keys d ec)\<rparr>)"
proof -
  have f: "find_entity_col d (get_or (entities intent) []) = Some ec"
    unfolding find_entity_col_def
    by (rule find_first [OF cols]) (use pre ec in \<open>auto simp: entity_matches_def list_ex_iff\<close>)
  have e: "get_or (entities intent) [] \<noteq> []"
    using ec by auto
  have mc: "metric_col d (m # rest) = Some m"
    using m by (simp add: metric_col_def)
  have g: "groupby_agg d ec m Sum
           = Inr \<lparr>columns = [(ec, col_dtype d ec), (m, Numeric)],
                  rows = map (\<lambda>k. [k, Num (group_sum d ec m k)]) (group_keys d ec)\<rparr>"
    using groupby_agg_Sum [OF num, of ec] m(3) by simp
  show ?thesis
    using e ne by (simp add: extract_comparison_def Let_def f ms mc g map_frame_def)
qed

lemma sorted_sums:
  assumes "sorted_wrt (\<lambda>r s. cell_ge (cell_at i r) (cell_at i s)) rs"
      and "\<forall>r \<in> set rs. \<exists>a. cell_at i r = Num a"
  shows "sorted_wrt (\<lambda>a b. b \<le> a) (map (\<lambda>r. cell_value (cell_at i r)) rs)"
proof -
  have "sorted_wrt (\<lambda>r s. cell_value (cell_at i s) \<le> cell_value (cell_at i r)) rs"
  proof (rule sorted_wrt_mono_rel [OF _ assms(1)])
    fix r s
    assume "r \<in> set rs" "s \<in> set rs" "cell_ge (cell_at i r) (cell_at i s)"
    moreover obtain a b where "cell_at i r = Num a" "cell_at i s = Num b"
      using assms(2) \<open>r \<in> set rs\<close> \<open>s \<in> set rs\<close> by blast
    ultimately show "cell_value (cell_at i s) \<le> cell_value (cell_at i r)"
      by (simp add: cell_ge_def cell_value_simps)
  qed
  then show ?thesis by (simp add: sorted_wrt_map)
qed

text \<open>
  Claim C2, as amended. For a comparison intent, the entity column is the first column,
  in the order of the columns, whose name contains, ignoring case, the text of any of the
  entities (not only of the first one). When that column has a non-empty name, and the
  first metric is a different column with a non-empty name that holds numbers,
  \<open>extract_by_intent\<close> returns one row per distinct value of the entity column that is
  not missing, holding the value and the sum of the metric over the rows of that value,
  the rows in descending order of the sum. For the entities \<open>[Region]\<close> and the
  metrics \<open>[Sales]\<close> this is one row per distinct region.
\<close>

theorem extract_comparison_groups:
  assumes qt: "get_or (query_type intent) ''summary'' = ''comparison''"
      and cols: "col_names (df self) = pre @ ec # post"
      and pre: "\<forall>c \<in> set pre. \<forall>e \<in> set (get_or (entities intent) []).
                  \<not> str_in (lower e) (lower c)"
      and ec: "\<exists>e \<in> set (get_or (entities intent) []). str_in (lower e) (lower ec)"
      and ne: "ec \<noteq> []"
      and ms: "get_or (metrics intent) [] = m # rest"
      and m: "m \<in> set (col_names (df self))" "m \<noteq> []" "m \<noteq> ec"
      and num: "numeric_col (df self) m"
  shows "\<exists>res. fst (extract_by_intent describe self intent) = Inr res
           \<and> col_names res = [ec, m]
           \<and> set (rows res)
               = (\<lambda>k. [k, Num (group_sum (df self) ec m k)])
                   ` (set (col_values (df self) ec) - {NaN})
           \<and> length (rows res) = card (set (col_values (df self) ec) - {NaN})
           \<and> sorted_wrt (\<lambda>a b. b \<le> a) (map (\<lambda>r. cell_value (cell_at 1 r)) (rows res))"
proof -
  let ?d = "df self"
  let ?g = "\<lparr>columns = [(ec, col_dtype ?d ec), (m, Numeric)],
             rows = map (\<lambda>k. [k, Num (group_sum ?d ec m k)]) (group_keys ?d ec)\<rparr>"
  let ?res = "sort_values m False ?g"
  have r: "fst (extract_by_intent describe self intent) = Inr ?res"
    using comparison_groups [OF cols pre ec ne ms m num] qt
    by (simp add: extract_by_intent_def Let_def)
  have i: "col_index ?g m = 1"
    using m(3) by (simp add: col_index_def col_names_def)
  have c: "col_names ?res = [ec, m]"
    by (simp add: col_names_def rows_sort_values)
  have s: "set (rows ?res)
             = (\<lambda>k. [k, Num (group_sum ?d ec m k)]) ` (set (col_values ?d ec) - {NaN})"
    by (simp add: rows_sort_values set_group_keys)
  have l: "length (rows ?res) = card (set (col_values ?d ec) - {NaN})"
    by (simp add: rows_sort_values length_group_keys)
  have "sorted_wrt (\<lambda>r s. cell_ge (cell_at 1 r) (cell_at 1 s)) (rows ?res)"
    using sorted_sort_values [of False ?g m] by (simp add: i)
  moreover have "\<forall>r \<in> set (rows ?res). \<exists>a. cell_at 1 r = Num a"
    by (auto simp: s cell_at_def)
  ultimately have o: "sorted_wrt (\<lambda>a b. b \<le> a) (map (\<lambda>r. cell_value (cell_at 1 r)) (rows ?res))"
    by (rule sorted_sums)
  from r c s l o show ?thesis by blast
qed

theorem comparison_first_entity_counterexample:
  "fst (extract_by_intent Inr extractor by_category_region)
     \<noteq> spec_comparison (df extractor) by_category_region"
  by code_simp

theorem extract_comparison_groups_witness:
  "get_or (query_type by_region) ''summary'' = ''comparison''
   \<and> col_names (df extractor) = [] @ ''Region'' # [''Category'', ''Sales'', ''Order_Date'']
   \<and> (\<exists>e \<in> set (get_or (entities by_region) []). str_in (lower e) (lower ''Region''))
   \<and> get_or (metrics by_region) [] = ''Sales'' # []
   \<and> numeric_col (df extractor) ''Sales''
   \<and> (\<exists>res. fst (extract_by_intent Inr extractor by_region) = Inr res
           \<and> col_names res = [''Region'', ''Sales'']
           \<and> length (rows res) = card (set (col_values (df extractor) ''Region'') - {NaN})
           \<and> sorted_wrt (\<lambda>a b. b \<le> a) (map (\<lambda>r. cell_value (cell_at 1 r)) (rows res)))
   \<and> fst (extract_by_intent Inr extractor by_region)
       = Inr \<lparr>columns = [(''Region'', Text), (''Sales'', Numeric)],
              rows = [[Str ''South'', Num 47], [Str ''North'', Num 15], [Str ''East'', Num 1]]\<rparr>"
proof -
  have qt: "get_or (query_type by_region) ''summary'' = ''comparison''"
    by (simp add: by_region_def intent_of_def)
  have cols: "col_names (df extractor) = [] @ ''Region'' # [''Category'', ''Sales'', ''Order_Date'']"
    by code_simp
  have pre: "\<forall>c \<in> set []. \<forall>e \<in> set (get_or (entities by_region) []).
                  \<not> str_in (lower e) (lower c)"
    by simp
  have ec: "\<exists>e \<in> set (get_or (entities by_region) []). str_in (lower e) (lower ''Region'')"
    by code_simp
  have ne: "''Region'' \<noteq> []"
    by simp
  have ms: "get_or (metrics by_region) [] = ''Sales'' # []"
    by (simp add: by_region_def)
  have m: "''Sales'' \<in> set (col_names (df extractor))" "''Sales'' \<noteq> []" "''Sales'' \<noteq> ''Region''"
    by code_simp+
  have num: "numeric_col (df extractor) ''Sales''"
    by code_simp
  have v: "fst (extract_by_intent Inr extractor by_region)
       = Inr \<lparr>columns = [(''Region'', Text), (''Sales'', Numeric)],
              rows = [[Str ''South'', Num 47], [Str ''North'', Num 15], [Str ''East'', Num 1]]\<rparr>"
    by code_simp
  show ?thesis
    using extract_comparison_groups [OF qt cols pre ec ne ms m num, of Inr] qt cols ec ms num v
    by blast
qed

subsection \<open>The trend strategy\<close>

lemma trend_groups:
  assumes cols: "columns d = pre @ (dc, t) # post"
      and pre: "\<forall>c \<in> set pre. snd c \<noteq> Datetime \<and> \<not> str_in ''date'' (lower (fst c))"
      and dc: "t = Datetime \<or> str_in ''date'' (lower dc)"
      and ne: "dc \<noteq> []"
      and ms: "get_or (metrics intent) [] = m # rest"
      and m: "m \<in> set (col_names d)" "m \<noteq> []" "m \<noteq> dc"
      and num: "numeric_col d m"
  shows "extract_trend d intent
           = Inr (sort_values dc True
                    \<lparr>columns = [(dc, col_dtype d dc), (m, Numeric)],
                     rows = map (\<lambda>k. [k, Num (group_sum d dc m k)]) (group_keys d dc)\<rparr>)"
proof -
  have "find is_date_col (columns d) = Some (dc, t)"
    by (rule find_first [OF cols]) (use pre dc in \<open>auto simp: is_date_col_def\<close>)
  then have f: "find_date_col d = Some dc"
    by (simp add: find_date_col_def)
  have mc: "metric_col d (m # rest) = Some m"
    using m by (simp add: metric_col_def)
  have g: "groupby_agg d dc m Sum
           = Inr \<lparr>columns = [(dc, col_dtype d dc), (m, Numeric)],
                  rows = map (\<lambda>k. [k, Num (group_sum d dc m k)]) (group_keys d dc)\<rparr>"
    using groupby_agg_Sum [OF num, of dc] m(3) by simp
  show ?thesis
    using ne by (simp add: extract_trend_def Let_def f ms mc g map_frame_def)
qed

lemma trend_groups_result:
  assumes qt: "get_or (query_type intent) ''summary'' = ''trend''"
      and cols: "columns (df self) = pre @ (dc, t) # post"
      and pre: "\<forall>c \<in> set pre. snd c \<noteq> Datetime \<and> \<not> str_in ''date'' (lower (fst c))"
      and dc: "t = Datetime \<or> str_in ''date'' (lower dc)"
      and ne: "dc \<noteq> []"
      and ms: "get_or (metrics intent) [] = m # rest"
      and m: "m \<in> set (col_names (df self))" "m \<noteq> []" "m \<noteq> dc"
      and num: "numeric_col (df self) m"
  shows "\<exists>res. fst (extract_by_intent describe self intent) = Inr res
           \<and> col_names res = [dc, m]
           \<and> set (rows res)
               = (\<lambda>k. [k, Num (group_sum (df self) dc m k)])
                   ` (set (col_values (df self) dc) - {NaN})
           \<and> length (rows res) = card (set (col_values (df self) dc) - {NaN})
           \<and> sorted_wrt (\<lambda>r s. cell_le (cell_at 0 r) (cell_at 0 s)) (rows res)"
proof -
  let ?d = "df self"
  let ?g = "\<lparr>columns = [(dc, col_dtype ?d dc), (m, Numeric)],
             rows = map (\<lambda>k. [k, Num (group_sum ?d dc m k)]) (group_keys ?d dc)\<rparr>"
  let ?res = "sort_values dc True ?g"
  have r: "fst (extract_by_intent describe self intent) = Inr ?res"
    using trend_groups [OF cols pre dc ne ms m num] qt
    by (simp add: extract_by_intent_def Let_def)
  have i: "col_index ?g dc = 0"
    by (simp add: col_index_def col_names_def)
  have c: "col_names ?res = [dc, m]"
    by (simp add: col_names_def rows_sort_values)
  have s: "set (rows ?res)
             = (\<lambda>k. [k, Num (group_sum ?d dc m k)]) ` (set (col_values ?d dc) - {NaN})"
    by (simp add: rows_sort_values set_group_keys)
  have l: "length (rows ?res) = card (set (col_values ?d dc) - {NaN})"
    by (simp add: rows_sort_values length_group_keys)
  have o: "sorted_wrt (\<lambda>r s. cell_le (cell_at 0 r) (cell_at 0 s)) (rows ?res)"
    using sorted_sort_values [of True ?g dc] by (simp add: i)
  from r c s l o show ?thesis by blast
qed

text \<open>
  Claim C7, as amended. For a trend intent, the grouping column is the first column, in
  the order of the columns, that is of type datetime or whose name contains \<open>date\<close>,
  ignoring case: a datetime column is not preferred to an earlier column that only has
  such a name. When that column has a non-empty name, and the first metric is a
  different column with a non-empty name that holds numbers, \<open>extract_by_intent\<close> returns
  one row per distinct value of the grouping column that is not missing, holding the
  value and the sum of the metric over the rows of that value, the rows in ascending
  order of the grouping column. When the metrics are empty, no column is of type datetime
  or has such a name, or the first metric is not a column, it returns the first 10 rows
  of the dataset.
\<close>

theorem extract_trend_groups:
  assumes qt: "get_or (query_type intent) ''summary'' = ''trend''"
  shows "(columns (df self) = pre @ (dc, t) # post
          \<and> (\<forall>c \<in> set pre. snd c \<noteq> Datetime \<and> \<not> str_in ''date'' (lower (fst c)))
          \<and> (t = Datetime \<or> str_in ''date'' (lower dc))
          \<and> dc \<noteq> []
          \<and> get_or (metrics intent) [] = m # rest
          \<and> m \<in> set (col_names (df self)) \<and> m \<noteq> [] \<and> m \<noteq> dc
          \<and> numeric_col (df self) m
          \<longrightarrow> (\<exists>res. fst (extract_by_intent describe self intent) = Inr res
                 \<and> col_names res = [dc, m]
                 \<and> set (rows res)
                     = (\<lambda>k. [k, Num (group_sum (df self) dc m k)])
                         ` (set (col_values (df self) dc) - {NaN})
                 \<and> length (rows res) = card (set (col_values (df self) dc) - {NaN})
                 \<and> sorted_wrt (\<lambda>r s. cell_le (cell_at 0 r) (cell_at 0 s)) (rows res)))
         \<and> (get_or (metrics intent) [] = []
             \<or> \<not> (\<exists>c \<in> set (columns (df self)).
                      snd c = Datetime \<or> str_in ''date'' (lower (fst c)))
             \<or> hd (get_or (metrics intent) []) \<notin> set (col_names (df self))
          \<longrightarrow> fst (extract_by_intent describe self intent) = Inr (first_rows 10 (df self)))"
proof (intro conjI impI)
  assume a: "columns (df self) = pre @ (dc, t) # post
          \<and> (\<forall>c \<in> set pre. snd c \<noteq> Datetime \<and> \<not> str_in ''date'' (lower (fst c)))
          \<and> (t = Datetime \<or> str_in ''date'' (lower dc))
          \<and> dc \<noteq> []
          \<and> get_or (metrics intent) [] = m # rest
          \<and> m \<in> set (col_names (df self)) \<and> m \<noteq> [] \<and> m \<noteq> dc
          \<and> numeric_col (df self) m"
  show "\<exists>res. fst (extract_by_intent describe self intent) = Inr res
                 \<and> col_names res = [dc, m]
                 \<and> set (rows res)
                     = (\<lambda>k. [k, Num (group_sum (df self) dc m k)])
                         ` (set (col_values (df self) dc) - {NaN})
                 \<and> length (rows res) = card (set (col_values (df self) dc) - {NaN})
                 \<and> sorted_wrt (\<lambda>r s. cell_le (cell_at 0 r) (cell_at 0 s)) (rows res)"
    by (rule trend_groups_result
          [OF qt, where pre = pre and dc = dc and t = t and post = post and m = m
             and rest = rest])
       (use a in simp_all)
next
  assume "get_or (metrics intent) [] = []
             \<or> \<not> (\<exists>c \<in> set (columns (df self)).
                      snd c = Datetime \<or> str_in ''date'' (lower (fst c)))
             \<or> hd (get_or (metrics intent) []) \<notin> set (col_names (df self))"
  then have b: "get_or (metrics intent) [] = [] \<or> find_date_col (df self) = None
           \<or> hd (get_or (metrics intent) []) \<notin> set (col_names (df self))"
    by (simp only: find_date_col_None)
  show "fst (extract_by_intent describe self intent) = Inr (first_rows 10 (df self))"
    using trend_fallback [OF b] qt
    by (simp add: extract_by_intent_def Let_def head10_first_rows)
qed

theorem trend_prefers_datetime_counterexample:
  "fst (extract_by_intent Inr shipping_agent sales_trend)
     \<noteq> spec_trend (df shipping_agent) sales_trend"
  by code_simp

theorem extract_trend_groups_witness:
  "get_or (query_type sales_trend) ''summary'' = ''trend''
   \<and> columns (df shipping_agent)
       = [] @ (''Updated_By'', Text) # [(''Shipped_On'', Datetime), (''Sales'', Numeric)]
   \<and> (Text = Datetime \<or> str_in ''date'' (lower ''Updated_By''))
   \<and> get_or (metrics sales_trend) [] = ''Sales'' # []
   \<and> numeric_col (df shipping_agent) ''Sales''
   \<and> (\<exists>res. fst (extract_by_intent Inr shipping_agent sales_trend) = Inr res
           \<and> col_names res = [''Updated_By'', ''Sales'']
           \<and> sorted_wrt (\<lambda>r s. cell_le (cell_at 0 r) (cell_at 0 s)) (rows res))
   \<and> fst (extract_by_intent Inr shipping_agent sales_trend)
       = Inr \<lparr>columns = [(''Updated_By'', Text), (''Sales'', Numeric)],
              rows = [[Str ''ann'', Num 15], [Str ''bob'', Num 20]]\<rparr>
   \<and> get_or (query_type margin_trend) ''summary'' = ''trend''
   \<and> hd (get_or (metrics margin_trend) []) \<notin> set (col_names (df shipping_agent))
   \<and> fst (extract_by_intent Inr shipping_agent margin_trend) = Inr (first_rows 10 shipments)"
proof -
  have qt: "get_or (query_type sales_trend) ''summary'' = ''trend''"
    by (simp add: sales_trend_def intent_of_def)
  have cols: "columns (df shipping_agent)
       = [] @ (''Updated_By'', Text) # [(''Shipped_On'', Datetime), (''Sales'', Numeric)]"
    by code_simp
  have pre: "\<forall>c \<in> set ([] :: (string \<times> dtype) list).
               snd c \<noteq> Datetime \<and> \<not> str_in ''date'' (lower (fst c))"
    by simp
  have dc: "Text = Datetime \<or> str_in ''date'' (lower ''Updated_By'')"
    by code_simp
  have ne: "''Updated_By'' \<noteq> []"
    by simp
  have ms: "get_or (metrics sales_trend) [] = ''Sales'' # []"
    by (simp add: sales_trend_def)
  have m: "''Sales'' \<in> set (col_names (df shipping_agent))" "''Sales'' \<noteq> []"
      "''Sales'' \<noteq> ''Updated_By''"
    by code_simp+
  have num: "numeric_col (df shipping_agent) ''Sales''"
    by code_simp
  have v: "fst (extract_by_intent Inr shipping_agent sales_trend)
       = Inr \<lparr>columns = [(''Updated_By'', Text), (''Sales'', Numeric)],
              rows = [[Str ''ann'', Num 15], [Str ''bob'', Num 20]]\<rparr>"
    by code_simp
  have qt2: "get_or (query_type margin_trend) ''summary'' = ''trend''"
    by (simp add: margin_trend_def intent_of_def)
  have un: "hd (get_or (metrics margin_trend) []) \<notin> set (col_names (df shipping_agent))"
    by code_simp
  have c: "df shipping_agent = shipments"
    by (simp add: shipping_agent_def)
  note t1 = extract_trend_groups
              [OF qt, where self = shipping_agent and pre = "[]" and dc = "''Updated_By''"
                 and t = Text and post = "[(''Shipped_On'', Datetime), (''Sales'', Numeric)]"
                 and m = "''Sales''" and rest = "[]" and describe = Inr]
  note t2 = extract_trend_groups [OF qt2, where self = shipping_agent and describe = Inr]
  have g: "\<exists>res. fst (extract_by_intent Inr shipping_agent sales_trend) = Inr res
           \<and> col_names res = [''Updated_By'', ''Sales'']
           \<and> sorted_wrt (\<lambda>r s. cell_le (cell_at 0 r) (cell_at 0 s)) (rows res)"
    using t1 cols pre dc ne ms m num by blast
  have f: "fst (extract_by_intent Inr shipping_agent margin_trend) = Inr (first_rows 10 shipments)"
    using t2 un c by simp
  from qt cols dc ms num g v qt2 un f show ?thesis
    by blast
qed

subsection \<open>The aggregation strategy\<close>

text \<open>
  Claim C3. An aggregation intent whose entity column and first metric resolve, with one
  of the aggregations the intent schema names (sum, avg, max, min, count), should return
  the aggregate per group without raising. For \<open>avg\<close> the code raises: a grouped column
  has no attribute of that name, \<open>getattr\<close> yields its default, the text \<open>'sum'\<close>, and
  calling a text is a \<open>TypeError\<close>. The same intent with the name \<open>mean\<close>, which pandas
  knows, returns the averages per region, sorted descending and truncated to the limit.
\<close>

theorem aggregation_avg_raises:
  "fst (extract_by_intent Inr extractor average_by_region)
     = Inl (TypeError ''str object is not callable'')
   \<and> fst (extract_by_intent Inr extractor mean_by_region)
     = Inr \<lparr>columns = [(''Region'', Text), (''Sales'', Numeric)],
            rows = [[Str ''South'', Num (47 / 3)], [Str ''North'', Num (15 / 2)]]\<rparr>"
  by code_simp

subsection \<open>The orchestrator\<close>

























subsection \<open>The dataset on the heap\<close>

lemma preserved_refl: "preserved h h"
  by (simp add: preserved_def)

lemma preserved_trans: "preserved h h1 \<Longrightarrow> preserved h1 h2 \<Longrightarrow> preserved h h2"
  by (auto simp: preserved_def)

lemma new_frame_preserved: "preserved h (snd (new_frame d h))"
  by (simp add: preserved_def new_frame_def)

lemma new_frame_value: "frame_at (snd (new_frame d h)) (fst (new_frame d h)) = d"
  by (simp add: frame_at_def new_frame_def)

lemma value_of_raise: "value_of (Inl e, h) = Inl e"
  by (simp add: value_of_def)

lemma new_result_preserved: "preserved h (snd (new_result r h))"
  by (cases r) (simp_all add: new_result_def preserved_refl new_frame_preserved)

lemma new_result_value: "value_of (new_result r h) = r"
  by (cases r) (simp_all add: new_result_def value_of_def new_frame_value)

lemma and_then_preserved:
  assumes "preserved h (snd r)" and "\<And>a h1. preserved h1 (snd (f a h1))"
  shows "preserved h (snd (and_then r f))"
proof (cases "fst r")
  case (Inl e)
  with assms(1) show ?thesis by (simp add: and_then_def)
next
  case (Inr a)
  then have "snd (and_then r f) = snd (f a (snd r))"
    by (simp add: and_then_def)
  with assms show ?thesis
    using preserved_trans by metis
qed

lemma and_then_value:
  "value_of (and_then (new_result r h) (\<lambda>a h1. new_result (Inr (g (frame_at h1 a))) h1))
     = map_frame g r"
  by (cases r)
     (simp_all add: and_then_def new_result_def value_of_def map_frame_def new_frame_value)

lemma heap_head10_preserved: "preserved h (snd (heap_head10 h))"
  by (simp add: heap_head10_def new_result_preserved)

lemma heap_head10_value: "value_of (heap_head10 h) = Inr (head10 (frame_at h (self_df h)))"
  by (simp add: heap_head10_def new_result_value)

lemma comparison_preserved: "preserved h (snd (heap_extract_comparison intent h))"
  by (auto simp: heap_extract_comparison_def Let_def heap_head10_preserved
        new_result_preserved intro!: and_then_preserved split: option.splits)

lemma comparison_value:
  "value_of (heap_extract_comparison intent h) = extract_comparison (frame_at h (self_df h)) intent"
  by (simp add: heap_extract_comparison_def extract_comparison_def Let_def heap_head10_value
        and_then_value split: option.splits)

lemma trend_preserved: "preserved h (snd (heap_extract_trend intent h))"
  by (auto simp: heap_extract_trend_def Let_def heap_head10_preserved
        new_result_preserved intro!: and_then_preserved split: option.splits)

lemma trend_value:
  "value_of (heap_extract_trend intent h) = extract_trend (frame_at h (self_df h)) intent"
  by (simp add: heap_extract_trend_def extract_trend_def Let_def heap_head10_value
        and_then_value split: option.splits)

lemma filter_loop_preserved: "preserved h (snd (filter_loop fs a h))"
proof (induction fs arbitrary: a h)
  case Nil
  then show ?case by (simp add: preserved_refl)
next
  case (Cons f fs)
  show ?case
  proof (cases "fst f \<in> set (col_names (frame_at h a))")
    case True
    let ?sel = "new_frame (apply_filter f (frame_at h a)) h"
    have "preserved h (snd ?sel)"
      by (rule new_frame_preserved)
    moreover have "preserved (snd ?sel) (snd (filter_loop fs (fst ?sel) (snd ?sel)))"
      by (rule Cons.IH)
    ultimately show ?thesis
      using True by (simp add: Let_def preserved_trans)
  next
    case False
    then show ?thesis by (simp add: Cons.IH)
  qed
qed

lemma filter_loop_value:
  "frame_at (snd (filter_loop fs a h)) (fst (filter_loop fs a h))
     = apply_filters fs (frame_at h a)"
proof (induction fs arbitrary: a h)
  case Nil
  then show ?case by simp
next
  case (Cons f fs)
  show ?case
  proof (cases "fst f \<in> set (col_names (frame_at h a))")
    case True
    then show ?thesis
      by (simp add: Let_def Cons.IH new_frame_value)
  next
    case False
    then have "apply_filter f (frame_at h a) = frame_at h a"
      by (simp add: apply_filter_def)
    with False show ?thesis by (simp add: Cons.IH)
  qed
qed

lemma filtered_preserved: "preserved h (snd (heap_extract_filtered intent h))"
proof -
  let ?copy = "new_frame (frame_at h (self_df h)) h"
  let ?looped = "filter_loop (get_or (filters intent) []) (fst ?copy) (snd ?copy)"
  have "preserved h (snd ?copy)"
    by (rule new_frame_preserved)
  moreover have "preserved (snd ?copy) (snd ?looped)"
    by (rule filter_loop_preserved)
  moreover have "preserved (snd ?looped) (snd (heap_extract_filtered intent h))"
    by (simp add: heap_extract_filtered_def Let_def new_result_preserved)
  ultimately show ?thesis
    using preserved_trans by blast
qed

lemma filtered_value:
  "value_of (heap_extract_filtered intent h) = extract_filtered (frame_at h (self_df h)) intent"
  by (simp add: heap_extract_filtered_def extract_filtered_def Let_def new_result_value
        filter_loop_value new_frame_value)

lemma sort_desc_by_preserved: "preserved h (snd (heap_sort_desc_by sb a h))"
  by (simp add: heap_sort_desc_by_def preserved_refl new_frame_preserved split: option.splits)

lemma sort_desc_by_value:
  "frame_at (snd (heap_sort_desc_by sb a h)) (fst (heap_sort_desc_by sb a h))
     = sort_desc_by sb (frame_at h a)"
  by (simp add: heap_sort_desc_by_def sort_desc_by_def new_frame_value split: option.splits)

lemma aggregation_step_preserved:
  "preserved h1
     (snd (new_result (Inr (head k (frame_at (snd (heap_sort_desc_by sb a h1))
                                        (fst (heap_sort_desc_by sb a h1)))))
             (snd (heap_sort_desc_by sb a h1))))"
  using preserved_trans [OF sort_desc_by_preserved new_result_preserved] .

lemma aggregation_preserved: "preserved h (snd (heap_extract_aggregation intent h))"
  by (auto simp: heap_extract_aggregation_def Let_def heap_head10_preserved preserved_refl
        new_result_preserved aggregation_step_preserved
        intro!: and_then_preserved split: option.splits)

lemma aggregation_step_value:
  "value_of (and_then (new_result r h)
      (\<lambda>a h1. new_result (Inr (head k (frame_at (snd (heap_sort_desc_by sb a h1))
                                           (fst (heap_sort_desc_by sb a h1)))))
                 (snd (heap_sort_desc_by sb a h1))))
     = map_frame (\<lambda>result. head k (sort_desc_by sb result)) r"
  by (cases r)
     (simp_all add: and_then_def new_result_def value_of_def map_frame_def new_frame_value
        sort_desc_by_value)

lemma aggregation_value:
  "value_of (heap_extract_aggregation intent h)
     = extract_aggregation (frame_at h (self_df h)) intent"
  by (simp add: heap_extract_aggregation_def extract_aggregation_def Let_def heap_head10_value
        aggregation_step_value value_of_raise split: option.splits)

lemma summary_preserved: "preserved h (snd (heap_extract_summary describe intent h))"
proof -
  have "preserved h
          (snd (new_result (describe (frame_at (snd (new_frame d h)) (fst (new_frame d h))))
                  (snd (new_frame d h))))" for d
    using preserved_trans [OF new_frame_preserved new_result_preserved] .
  then show ?thesis
    by (simp add: heap_extract_summary_def Let_def new_result_preserved preserved_refl
          split: sum.splits)
qed

lemma summary_value:
  "value_of (heap_extract_summary describe intent h)
     = extract_summary describe (frame_at h (self_df h)) intent"
proof (cases "get_or (metrics intent) [] = []")
  case True
  then show ?thesis
    by (simp add: heap_extract_summary_def extract_summary_def Let_def new_result_value
          new_frame_value)
next
  case False
  let ?d = "frame_at h (self_df h)"
  let ?s = "metric_stats ?d
              (keep_first (filter (\<lambda>m. m \<in> set (col_names ?d)) (get_or (metrics intent) [])))"
  show ?thesis
  proof (cases ?s)
    case (Inl e)
    with False show ?thesis
      by (simp add: heap_extract_summary_def extract_summary_def Let_def value_of_raise)
  next
    case (Inr stats)
    with False show ?thesis
      by (simp add: heap_extract_summary_def extract_summary_def Let_def new_result_value)
  qed
qed

lemma heap_extract_preserved: "preserved h (snd (heap_extract_by_intent describe intent h))"
  by (simp add: heap_extract_by_intent_def Let_def summary_preserved comparison_preserved
        trend_preserved filtered_preserved aggregation_preserved heap_head10_preserved)

lemma heap_extract_value:
  "df self = frame_at h (self_df h)
     \<Longrightarrow> value_of (heap_extract_by_intent describe intent h)
          = fst (extract_by_intent describe self intent)"
  by (simp add: heap_extract_by_intent_def extract_by_intent_def Let_def summary_value
        comparison_value trend_value filtered_value aggregation_value heap_head10_value)

text \<open>
  Claim C10. \<open>extract_by_intent\<close> leaves the dataset unchanged. Started on a heap where
  \<open>self.df\<close> refers to an object, it ends, for every intent (all five strategies and
  the fallback, also when it raises), on a heap where \<open>self.df\<close> holds the same
  reference, the object stored there is the same frame, and every other object that
  existed is unchanged: the filter strategy selects from a copy, and the other strategies
  read the dataset and build new frames. The frame it returns is the one the strategies
  compute from the value of the dataset.
\<close>

theorem extract_by_intent_dataset_unchanged:
  assumes "self_df h < next_ref h" and "df self = frame_at h (self_df h)"
  shows "self_df (snd (heap_extract_by_intent describe intent h)) = self_df h
         \<and> objects (snd (heap_extract_by_intent describe intent h)) (self_df h)
             = objects h (self_df h)
         \<and> frame_at (snd (heap_extract_by_intent describe intent h))
               (self_df (snd (heap_extract_by_intent describe intent h)))
             = frame_at h (self_df h)
         \<and> (\<forall>a. a < next_ref h
               \<longrightarrow> objects (snd (heap_extract_by_intent describe intent h)) a = objects h a)
         \<and> value_of (heap_extract_by_intent describe intent h)
             = fst (extract_by_intent describe self intent)"
proof -
  have p: "preserved h (snd (heap_extract_by_intent describe intent h))"
    by (rule heap_extract_preserved)
  then have "frame_at (snd (heap_extract_by_intent describe intent h))
               (self_df (snd (heap_extract_by_intent describe intent h)))
             = frame_at h (self_df h)"
    using assms(1) by (simp add: preserved_def frame_at_def)
  with p assms heap_extract_value [OF assms(2)] show ?thesis
    by (simp add: preserved_def)
qed

theorem extract_by_intent_dataset_unchanged_witness:
  "self_df shop_heap < next_ref shop_heap
   \<and> df extractor = frame_at shop_heap (self_df shop_heap)
   \<and> self_df (snd (heap_extract_by_intent Inr electronics shop_heap)) = 0
   \<and> objects (snd (heap_extract_by_intent Inr electronics shop_heap)) 0 = Some sales
   \<and> fst (heap_extract_by_intent Inr electronics shop_heap) = Inr 3
   \<and> value_of (heap_extract_by_intent Inr electronics shop_heap)
       = Inr \<lparr>columns = columns sales,
              rows = [[Str ''North'', Str ''Electronics'', Num 10, Date 3],
                      [Str ''South'', Str ''Electronics'', Num 7, Date 1]]\<rparr>
   \<and> objects (snd (heap_extract_by_intent Inr by_region shop_heap)) 0 = Some sales
   \<and> objects (snd (heap_extract_by_intent Inr average_by_region shop_heap)) 0 = Some sales
   \<and> fst (heap_extract_by_intent Inr average_by_region shop_heap)
       = Inl (TypeError ''str object is not callable'')"
proof -
  have w: "self_df shop_heap < next_ref shop_heap"
    by (simp add: shop_heap_def)
  have d: "df extractor = frame_at shop_heap (self_df shop_heap)"
    by (simp add: extractor_def shop_heap_def frame_at_def)
  have o: "objects shop_heap (self_df shop_heap) = Some sales" "self_df shop_heap = 0"
    by (simp_all add: shop_heap_def)
  have a: "fst (heap_extract_by_intent Inr electronics shop_heap) = Inr 3"
    by code_simp
  have v: "fst (extract_by_intent Inr extractor electronics)
             = Inr \<lparr>columns = columns sales,
                    rows = [[Str ''North'', Str ''Electronics'', Num 10, Date 3],
                            [Str ''South'', Str ''Electronics'', Num 7, Date 1]]\<rparr>"
    by code_simp
  have e: "fst (heap_extract_by_intent Inr average_by_region shop_heap)
             = Inl (TypeError ''str object is not callable'')"
    by code_simp
  show ?thesis
    using extract_by_intent_dataset_unchanged [OF w d, of Inr electronics]
      extract_by_intent_dataset_unchanged [OF w d, of Inr by_region]
      extract_by_intent_dataset_unchanged [OF w d, of Inr average_by_region] w d o a v e
    by simp
qed

end
